theory Spec2Isabelle
  imports Complex_Main
begin

section \<open>Set solver: card properties and the Set rule\<close>

text \<open>
  The four card properties of \<^verbatim>\<open>types.ts\<close>: each is a TypeScript union of three
  literals. \<^verbatim>\<open>Number\<close> is the union \<^verbatim>\<open>1 | 2 | 3\<close>.
\<close>

datatype Shape = Diamond | Oval | Squiggle

datatype Color = Red | Green | Purple

datatype Number = Num1 | Num2 | Num3

datatype Shading = Solid | Striped | Empty

record point =
  x :: real
  y :: real

text \<open>
  The four property fields shared by a \<^verbatim>\<open>Card\<close> and by the object literals that
  \<^verbatim>\<open>computeRequiredThirdCard\<close> and \<^verbatim>\<open>indicesToCard\<close> return. The records are
  polymorphic in the types of the four properties: the solver's rule functions are
  generic in the source (\<^verbatim>\<open>isIdenticalOrDistinct<T>\<close>), a typed card carries \<open>Shape\<close>,
  \<open>Color\<close>, \<open>Number\<close>, \<open>Shading\<close>, and an object built from table lookups carries the
  results of those lookups, which are \<^verbatim>\<open>undefined\<close> (\<open>None\<close>) out of range.
\<close>

record ('s, 'c, 'n, 'd) CardProps =
  shape :: 's
  color :: 'c
  number :: 'n
  shading :: 'd

text \<open>
  A \<^verbatim>\<open>Card\<close>: the property fields and the location data. The field \<^verbatim>\<open>corners\<close> is
  optional in the source.
\<close>

record ('s, 'c, 'n, 'd) Card = "('s, 'c, 'n, 'd) CardProps" +
  id :: nat
  bbox :: "real \<times> real \<times> real \<times> real"
  corners :: "point list option"
  confidence :: real

type_synonym TCard = "(Shape, Color, Number, Shading) Card"

record ('s, 'c, 'n, 'd) SetResult =
  cards :: "('s, 'c, 'n, 'd) Card \<times> ('s, 'c, 'n, 'd) Card \<times> ('s, 'c, 'n, 'd) Card"
  indices :: "nat \<times> nat \<times> nat"

text \<open>The fixed ordered lookup tables.\<close>

definition SHAPES :: "Shape list" where
  "SHAPES = [Diamond, Oval, Squiggle]"

definition COLORS :: "Color list" where
  "COLORS = [Red, Green, Purple]"

definition NUMBERS :: "Number list" where
  "NUMBERS = [Num1, Num2, Num3]"

definition SHADINGS :: "Shading list" where
  "SHADINGS = [Solid, Striped, Empty]"

text \<open>
  \<^verbatim>\<open>new Set([v1, v2, v3]).size !== 2\<close>: the size of a JavaScript \<^verbatim>\<open>Set\<close> built from an
  array is the number of distinct elements of the array.
\<close>

definition isIdenticalOrDistinct :: "'a \<Rightarrow> 'a \<Rightarrow> 'a \<Rightarrow> bool" where
  "isIdenticalOrDistinct v1 v2 v3 = (let uniqueCount = card (set [v1, v2, v3]) in uniqueCount \<noteq> 2)"

definition isValidSet ::
  "('s, 'c, 'n, 'd) Card \<Rightarrow> ('s, 'c, 'n, 'd) Card \<Rightarrow> ('s, 'c, 'n, 'd) Card \<Rightarrow> bool" where
  "isValidSet c1 c2 c3 =
     (isIdenticalOrDistinct (shape c1) (shape c2) (shape c3) \<and>
      isIdenticalOrDistinct (color c1) (color c2) (color c3) \<and>
      isIdenticalOrDistinct (number c1) (number c2) (number c3) \<and>
      isIdenticalOrDistinct (shading c1) (shading c2) (shading c3))"

text \<open>
  The rule in the words of the specification, to compare the code with: three values are
  all equal or pairwise distinct.
\<close>

definition all_same_or_all_different :: "'a \<Rightarrow> 'a \<Rightarrow> 'a \<Rightarrow> bool" where
  "all_same_or_all_different a b c = ((a = b \<and> b = c) \<or> (a \<noteq> b \<and> b \<noteq> c \<and> a \<noteq> c))"

section \<open>Set solver: searching for Sets\<close>

text \<open>
  \<^verbatim>\<open>findAllSets\<close>: three nested loops over \<open>i < j < k\<close>, pushing a result for every valid
  triple in the order the loops reach it. The bounds \<^verbatim>\<open>n - 2\<close> and \<^verbatim>\<open>n - 1\<close> are negative
  in the source for short lists and the loops then do not run; the truncated subtraction
  of \<open>nat\<close> gives the same empty ranges.
\<close>

definition findAllSets :: "('s, 'c, 'n, 'd) Card list \<Rightarrow> ('s, 'c, 'n, 'd) SetResult list" where
  "findAllSets cs =
     (let n = length cs in
      concat (map (\<lambda>i.
        concat (map (\<lambda>j.
          concat (map (\<lambda>k.
            if isValidSet (cs ! i) (cs ! j) (cs ! k)
            then [\<lparr>cards = (cs ! i, cs ! j, cs ! k), indices = (i, j, k)\<rparr>]
            else [])
          [j + 1 ..< n]))
        [i + 1 ..< n - 1]))
      [0 ..< n - 2]))"

text \<open>
  \<^verbatim>\<open>getThirdValue\<close>: \<^verbatim>\<open>Array.prototype.find\<close> returns the first element that satisfies the
  predicate, or \<^verbatim>\<open>undefined\<close> (\<open>None\<close>) when there is none; the \<^verbatim>\<open>!\<close> after the call is a
  compile-time assertion with no effect at run time.
\<close>

definition getThirdValue :: "'a \<Rightarrow> 'a \<Rightarrow> 'a list \<Rightarrow> 'a option" where
  "getThirdValue v1 v2 allValues =
     (if v1 = v2 then Some v1 else find (\<lambda>v. v \<noteq> v1 \<and> v \<noteq> v2) allValues)"

definition computeRequiredThirdCard ::
  "TCard \<Rightarrow> TCard \<Rightarrow> (Shape option, Color option, Number option, Shading option) CardProps" where
  "computeRequiredThirdCard c1 c2 =
     \<lparr>shape = getThirdValue (shape c1) (shape c2) SHAPES,
      color = getThirdValue (color c1) (color c2) COLORS,
      number = getThirdValue (number c1) (number c2) NUMBERS,
      shading = getThirdValue (shading c1) (shading c2) SHADINGS\<rparr>"

text \<open>
  The signature of a card: the template literal
  \<^verbatim>\<open>`${card.shape}-${card.color}-${card.number}-${card.shading}`\<close>. A property value is
  written as its literal; \<^verbatim>\<open>undefined\<close> is written \<^verbatim>\<open>undefined\<close>.
\<close>

fun strShape :: "Shape \<Rightarrow> string" where
  "strShape Diamond = ''diamond''"
| "strShape Oval = ''oval''"
| "strShape Squiggle = ''squiggle''"

fun strColor :: "Color \<Rightarrow> string" where
  "strColor Red = ''red''"
| "strColor Green = ''green''"
| "strColor Purple = ''purple''"

fun strNumber :: "Number \<Rightarrow> string" where
  "strNumber Num1 = ''1''"
| "strNumber Num2 = ''2''"
| "strNumber Num3 = ''3''"

fun strShading :: "Shading \<Rightarrow> string" where
  "strShading Solid = ''solid''"
| "strShading Striped = ''striped''"
| "strShading Empty = ''empty''"

fun strOpt :: "('a \<Rightarrow> string) \<Rightarrow> 'a option \<Rightarrow> string" where
  "strOpt f None = ''undefined''"
| "strOpt f (Some v) = f v"

definition signature :: "string \<Rightarrow> string \<Rightarrow> string \<Rightarrow> string \<Rightarrow> string" where
  "signature s c n d = s @ ''-'' @ c @ ''-'' @ n @ ''-'' @ d"

definition cardKey :: "TCard \<Rightarrow> string" where
  "cardKey c =
     signature (strShape (shape c)) (strColor (color c)) (strNumber (number c)) (strShading (shading c))"

definition requiredKey ::
  "(Shape option, Color option, Number option, Shading option) CardProps \<Rightarrow> string" where
  "requiredKey r =
     signature (strOpt strShape (shape r)) (strOpt strColor (color r))
       (strOpt strNumber (number r)) (strOpt strShading (shading r))"

text \<open>
  The lookup map of \<^verbatim>\<open>findAllSetsOptimized\<close>: \<^verbatim>\<open>cards.forEach((card, idx) => cardMap.set(key, idx))\<close>.
  A later card with the same signature overwrites the index of an earlier one.
\<close>

definition buildCardMap :: "TCard list \<Rightarrow> (string \<rightharpoonup> nat)" where
  "buildCardMap cs = fold (\<lambda>(idx, c) m. m(cardKey c \<mapsto> idx)) (enumerate 0 cs) Map.empty"

definition findAllSetsOptimized ::
  "TCard list \<Rightarrow> (Shape, Color, Number, Shading) SetResult list" where
  "findAllSetsOptimized cs =
     (let cardMap = buildCardMap cs in
      concat (map (\<lambda>i.
        concat (map (\<lambda>j.
          let required = computeRequiredThirdCard (cs ! i) (cs ! j);
              key = requiredKey required
          in (case cardMap key of
                None \<Rightarrow> []
              | Some k \<Rightarrow>
                  if k > j
                  then [\<lparr>cards = (cs ! i, cs ! j, cs ! k), indices = (i, j, k)\<rparr>]
                  else []))
        [i + 1 ..< length cs]))
      [0 ..< length cs - 1]))"

text \<open>
  \<^verbatim>\<open>indicesToCard\<close>. Reading a JavaScript array at an index that is not one of its
  positions gives \<^verbatim>\<open>undefined\<close> and does not throw; \<open>arrayGet\<close> is that read. No statement
  of \<^verbatim>\<open>indicesToCard\<close> throws, so the model, whose result type has a branch \<open>Inl\<close> for
  an exception, always returns with \<open>Inr\<close>.
\<close>

datatype js_error = TypeError | EngineError | ClassifierError

definition arrayGet :: "'a list \<Rightarrow> int \<Rightarrow> 'a option" where
  "arrayGet xs i = (if 0 \<le> i \<and> i < int (length xs) then Some (xs ! nat i) else None)"

definition indicesToCard ::
  "int \<Rightarrow> int \<Rightarrow> int \<Rightarrow> int \<Rightarrow>
   js_error + (Shape option, Color option, Number option, Shading option) CardProps" where
  "indicesToCard shapeIdx colorIdx numberIdx shadingIdx =
     Inr \<lparr>shape = arrayGet SHAPES shapeIdx,
          color = arrayGet COLORS colorIdx,
          number = arrayGet NUMBERS numberIdx,
          shading = arrayGet SHADINGS shadingIdx\<rparr>"

section \<open>Detector: geometry helpers\<close>

text \<open>
  Coordinates are finite JavaScript numbers. The keys by which \<^verbatim>\<open>orderCorners\<close> compares
  points are computed as the source computes them, in double precision (\<open>toDouble\<close>
  below), since the function looks for equal keys; elsewhere the model computes with
  exact reals. Where the source divides by a quantity that can be zero, the model writes
  out what the source's comparison does there.

  \<open>nearestDouble r\<close> is the real \<open>r\<close> rounded to 53 significant bits: the multiple of the
  spacing of the doubles around \<open>r\<close> nearest to \<open>r\<close>, the even multiple when two are equally
  near. The spacing is \<open>2\<close> to the power \<open>e - 52\<close> for \<open>2 ^ e \<le> \<bar>r\<bar> < 2 ^ (e + 1)\<close>, and \<open>e\<close>
  is at least \<open>- 1022\<close> (the subnormal numbers). \<open>toDouble r\<close> is the double that IEEE 754
  arithmetic gives for an exact result \<open>r\<close>: \<open>nearestDouble r\<close> when that is below \<open>2 ^ 1024\<close>
  in absolute value, and \<^verbatim>\<open>Infinity\<close> or \<^verbatim>\<open>-Infinity\<close> otherwise. The two infinities are
  represented by the reals \<open>2 ^ 1024\<close> and \<open>- (2 ^ 1024)\<close>, which lie beyond every finite
  double as the infinities do: \<^verbatim>\<open>Math.min\<close>, \<^verbatim>\<open>Math.max\<close> and \<^verbatim>\<open>indexOf\<close> only compare the
  keys. A sum or difference of two finite doubles in JavaScript is \<open>toDouble\<close> of the exact
  sum or difference; it is never \<^verbatim>\<open>NaN\<close>.
\<close>

definition roundHalfEven :: "real \<Rightarrow> int" where
  "roundHalfEven q =
     (let n = \<lfloor>q\<rfloor>; f = q - real_of_int n
      in if f < 1 / 2 then n else if f > 1 / 2 then n + 1 else if even n then n else n + 1)"

definition binade :: "real \<Rightarrow> int" where
  "binade r = max (- 1022) \<lfloor>log 2 \<bar>r\<bar>\<rfloor>"

definition nearestDouble :: "real \<Rightarrow> real" where
  "nearestDouble r =
     (if r = 0 then 0
      else let ulp = power_int 2 (binade r - 52)
           in real_of_int (roundHalfEven (r / ulp)) * ulp)"

definition jsInfinity :: real where
  "jsInfinity = 2 ^ 1024"

definition toDouble :: "real \<Rightarrow> real" where
  "toDouble r =
     (let d = nearestDouble r
      in if jsInfinity \<le> d then jsInfinity
         else if d \<le> - jsInfinity then - jsInfinity
         else d)"

text \<open>
  \<^verbatim>\<open>Math.min(...xs)\<close> of an empty array is \<^verbatim>\<open>Infinity\<close>, which is no element of any array
  of finite numbers: \<open>None\<close> stands for it. \<^verbatim>\<open>indexOf\<close> gives the first position of a
  value (\<open>None\<close> for \<^verbatim>\<open>-1\<close>), and reading an array at \<^verbatim>\<open>-1\<close> gives \<^verbatim>\<open>undefined\<close>.
\<close>

definition mathMin :: "real list \<Rightarrow> real option" where
  "mathMin vs = (case vs of [] \<Rightarrow> None | v # rest \<Rightarrow> Some (fold min rest v))"

definition mathMax :: "real list \<Rightarrow> real option" where
  "mathMax vs = (case vs of [] \<Rightarrow> None | v # rest \<Rightarrow> Some (fold max rest v))"

fun indexOf :: "'a list \<Rightarrow> 'a \<Rightarrow> nat option" where
  "indexOf [] v = None"
| "indexOf (u # us) v = (if u = v then Some 0 else map_option Suc (indexOf us v))"

definition elementAt :: "'a list \<Rightarrow> real list \<Rightarrow> real option \<Rightarrow> 'a option" where
  "elementAt pts keys m =
     (case m of
        None \<Rightarrow> None
      | Some v \<Rightarrow>
          (case indexOf keys v of
             None \<Rightarrow> None
           | Some i \<Rightarrow> if i < length pts then Some (pts ! i) else None))"

text \<open>
  \<^verbatim>\<open>orderCorners\<close>. \<open>cornerSum\<close> and \<open>cornerDiff\<close> are the two functions the source maps over
  the points, \<^verbatim>\<open>p => p.x + p.y\<close> and \<^verbatim>\<open>p => p.y - p.x\<close>.
\<close>

definition cornerSum :: "point \<Rightarrow> real" where
  "cornerSum p = toDouble (x p + y p)"

definition cornerDiff :: "point \<Rightarrow> real" where
  "cornerDiff p = toDouble (y p - x p)"

definition orderCorners :: "point list \<Rightarrow> point option list" where
  "orderCorners pts =
     (let sum = map cornerSum pts;
          diff = map cornerDiff pts;
          tlc = elementAt pts sum (mathMin sum);
          brc = elementAt pts sum (mathMax sum);
          trc = elementAt pts diff (mathMin diff);
          blc = elementAt pts diff (mathMax diff)
      in [tlc, trc, brc, blc])"

text \<open>
  \<^verbatim>\<open>rectanglesOverlap\<close>. The two local quantities of the source that the test compares
  are named, so that statements about the test can refer to them.
\<close>

type_synonym box = "real \<times> real \<times> real \<times> real"

fun overlapArea :: "box \<Rightarrow> box \<Rightarrow> real" where
  "overlapArea (ax1, ay1, ax2, ay2) (bx1, by1, bx2, by2) =
     (let overlapX = max 0 (min ax2 bx2 - max ax1 bx1);
          overlapY = max 0 (min ay2 by2 - max ay1 by1)
      in overlapX * overlapY)"

fun minArea :: "box \<Rightarrow> box \<Rightarrow> real" where
  "minArea (ax1, ay1, ax2, ay2) (bx1, by1, bx2, by2) =
     (let areaA = (ax2 - ax1) * (ay2 - ay1);
          areaB = (bx2 - bx1) * (by2 - by1)
      in min areaA areaB)"

definition rectanglesOverlap :: "box \<Rightarrow> box \<Rightarrow> real \<Rightarrow> bool" where
  "rectanglesOverlap a b threshold = (overlapArea a b > minArea a b * threshold)"

section \<open>Detector: contour filtering, deduplication and ordering\<close>

record CardDetection =
  bbox :: box
  corners :: "point list"
  confidence :: real

record ImageData =
  width :: nat
  height :: nat
  data :: "nat list"

record Strategy =
  sThresh :: real
  vThresh :: real
  cannyLow :: real
  cannyHigh :: real
  morphSize :: real

text \<open>
  What OpenCV reports for one contour in the loop of \<^verbatim>\<open>detectWithStrategy\<close>:
  \<^verbatim>\<open>cv.contourArea(c)\<close>, the size of \<^verbatim>\<open>cv.minAreaRect(c)\<close>, the four points of
  \<^verbatim>\<open>cv.RotatedRect.points(rect)\<close> and the standard deviation of the saturation channel
  inside \<^verbatim>\<open>cv.boundingRect(c)\<close>.
\<close>

record Contour =
  area :: real
  rectWidth :: real
  rectHeight :: real
  rectPoints :: "point list"
  satStd :: real

text \<open>
  The geometric engine, OpenCV.js, is not code of the repository: it is a parameter of the
  model. \<open>findContours\<close> stands for the image processing of \<^verbatim>\<open>detectWithStrategy\<close> up to
  \<^verbatim>\<open>cv.findContours\<close> together with the measurements of every contour, for the image
  resized by the given factor; \<open>warpPerspective\<close> stands for the perspective transform of
  \<^verbatim>\<open>warpCardToImageData\<close> and the copy into a new \<^verbatim>\<open>ImageData\<close>. Either can throw.

  The global \<^verbatim>\<open>cv\<close> is undefined until the script is loaded; \<^verbatim>\<open>isOpenCVLoaded\<close> also asks
  whether \<^verbatim>\<open>cv.Mat\<close> is defined, which the flag of \<open>CvDefined\<close> records.
\<close>

record Engine =
  findContours :: "ImageData \<Rightarrow> real \<Rightarrow> Strategy \<Rightarrow> js_error + Contour list"
  warpPerspective :: "ImageData \<Rightarrow> point list \<Rightarrow> nat \<Rightarrow> nat \<Rightarrow> js_error + ImageData"

datatype CvGlobal = CvUndefined | CvDefined bool Engine

fun isOpenCVLoaded :: "CvGlobal \<Rightarrow> bool" where
  "isOpenCVLoaded CvUndefined = False"
| "isOpenCVLoaded (CvDefined hasMat eng) = hasMat"

text \<open>
  Two blocks of the loop body of \<^verbatim>\<open>detectWithStrategy\<close>, named so that the body stays
  readable: the bounding box of the ordered corners (\<^verbatim>\<open>ordered\<close> always has four entries,
  so the minima and maxima are taken over non-empty sets), and the test that rejects a
  box that is mostly outside the image. There the source divides by the area of the
  bounding box; when that area is zero the quotient is \<^verbatim>\<open>NaN\<close> or infinite, and the
  comparison \<^verbatim>\<open>visibleRatio < 0.85\<close> is then true only for a negative numerator.
\<close>

definition boundingBox :: "point list \<Rightarrow> box" where
  "boundingBox ordered =
     (let xs = map x ordered;
          ys = map y ordered
      in (Min (set xs), Min (set ys), Max (set xs), Max (set ys)))"

fun mostlyOutside :: "box \<Rightarrow> real \<Rightarrow> real \<Rightarrow> bool" where
  "mostlyOutside (b0, b1, b2, b3) imgW imgH =
     (let bboxW = b2 - b0;
          bboxH = b3 - b1;
          visibleX = min b2 imgW - max b0 0;
          visibleY = min b3 imgH - max b1 0
      in if bboxW * bboxH = 0 then visibleX * visibleY < 0
         else (visibleX * visibleY) / (bboxW * bboxH) < 0.85)"

text \<open>
  The body of the loop over the contours: \<open>Inr None\<close> is a \<^verbatim>\<open>continue\<close>, \<open>Inr (Some d)\<close>
  a \<^verbatim>\<open>cards.push(d)\<close>. \<^verbatim>\<open>ordered.map(p => p.x)\<close> throws a \<^verbatim>\<open>TypeError\<close> when an entry of
  \<^verbatim>\<open>ordered\<close> is \<^verbatim>\<open>undefined\<close>: \<open>those\<close> is \<open>None\<close> exactly then.
\<close>

definition processContour ::
  "real \<Rightarrow> real \<Rightarrow> real \<Rightarrow> real \<Rightarrow> Contour \<Rightarrow> js_error + CardDetection option" where
  "processContour imgCols imgRows factor imgArea c =
     (if area c < imgArea * 0.005 then Inr None
      else if area c > imgArea * 0.50 then Inr None
      else
        let w = rectWidth c; h = rectHeight c; rectArea = w * h in
        if rectArea \<le> 1 then Inr None
        else
          let fillRatio = area c / rectArea in
          if fillRatio < 0.60 then Inr None
          else
            let aspect = max (h / max 1 w) (w / max 1 h) in
            if aspect < 1.1 \<or> aspect > 2.2 then Inr None
            else if satStd c < 8 then Inr None
            else
              let cornerPts = map (\<lambda>p. \<lparr>x = x p / factor, y = y p / factor\<rparr>) (rectPoints c) in
              (case those (orderCorners cornerPts) of
                 None \<Rightarrow> Inl TypeError
               | Some ordered \<Rightarrow>
                   let box = boundingBox ordered;
                       imgW = imgCols / factor;
                       imgH = imgRows / factor
                   in if mostlyOutside box imgW imgH then Inr None
                      else Inr (Some \<lparr>bbox = box, corners = ordered, confidence = fillRatio\<rparr>)))"

fun contourLoop ::
  "(Contour \<Rightarrow> js_error + CardDetection option) \<Rightarrow> Contour list \<Rightarrow> CardDetection list \<Rightarrow>
   js_error + CardDetection list" where
  "contourLoop body [] acc = Inr acc"
| "contourLoop body (c # cs) acc =
     (case body c of
        Inl e \<Rightarrow> Inl e
      | Inr None \<Rightarrow> contourLoop body cs acc
      | Inr (Some d) \<Rightarrow> contourLoop body cs (acc @ [d]))"

definition detectWithStrategy ::
  "Engine \<Rightarrow> ImageData \<Rightarrow> real \<Rightarrow> real \<Rightarrow> real \<Rightarrow> real \<Rightarrow> Strategy \<Rightarrow>
   js_error + CardDetection list" where
  "detectWithStrategy eng img imgCols imgRows factor imgArea params =
     (case findContours eng img factor params of
        Inl e \<Rightarrow> Inl e
      | Inr contours \<Rightarrow> contourLoop (processContour imgCols imgRows factor imgArea) contours [])"

text \<open>
  The inner loop of \<^verbatim>\<open>detectCardsOpenCV\<close>: a detection is pushed unless it overlaps a
  detection already in \<^verbatim>\<open>allCards\<close> (\<^verbatim>\<open>allCards.some(...)\<close> with threshold \<^verbatim>\<open>0.4\<close>).
\<close>

fun addDetections :: "CardDetection list \<Rightarrow> CardDetection list \<Rightarrow> CardDetection list" where
  "addDetections [] allCards = allCards"
| "addDetections (det # dets) allCards =
     (let isDuplicate = list_ex (\<lambda>existing. rectanglesOverlap (bbox existing) (bbox det) 0.4) allCards
      in addDetections dets (if \<not> isDuplicate then allCards @ [det] else allCards))"

fun strategyLoop ::
  "(Strategy \<Rightarrow> js_error + CardDetection list) \<Rightarrow> Strategy list \<Rightarrow> CardDetection list \<Rightarrow>
   js_error + CardDetection list" where
  "strategyLoop run [] allCards = Inr allCards"
| "strategyLoop run (s # ss) allCards =
     (case run s of
        Inl e \<Rightarrow> Inl e
      | Inr detections \<Rightarrow> strategyLoop run ss (addDetections detections allCards))"

definition strategies :: "Strategy list" where
  "strategies =
     [\<lparr>sThresh = 60, vThresh = 140, cannyLow = 30, cannyHigh = 100, morphSize = 5\<rparr>,
      \<lparr>sThresh = 80, vThresh = 120, cannyLow = 40, cannyHigh = 120, morphSize = 7\<rparr>,
      \<lparr>sThresh = 100, vThresh = 100, cannyLow = 50, cannyHigh = 150, morphSize = 9\<rparr>]"

text \<open>
  The comparator of the final sort, for an image of positive height (the row height is
  \<^verbatim>\<open>imageData.height / 6\<close>), and the sort. \<^verbatim>\<open>Array.prototype.sort\<close> is stable, and this
  comparator is a consistent ordering (by row, then by horizontal centre), so the result
  is the one of a stable insertion sort: \<open>sortDetections\<close> inserts the elements from the
  last to the first, each before the first element it does not have to follow.
\<close>

definition positionCompare :: "nat \<Rightarrow> CardDetection \<Rightarrow> CardDetection \<Rightarrow> real" where
  "positionCompare imageHeight a b =
     (case (bbox a, bbox b) of
        ((ax1, ay1, ax2, ay2), (bx1, by1, bx2, by2)) \<Rightarrow>
          let aY = (ay1 + ay2) / 2;
              bY = (by1 + by2) / 2;
              rowHeight = real imageHeight / 6;
              aRow = \<lfloor>aY / rowHeight\<rfloor>;
              bRow = \<lfloor>bY / rowHeight\<rfloor>
          in if aRow \<noteq> bRow then real_of_int (aRow - bRow)
             else (ax1 + ax2) / 2 - (bx1 + bx2) / 2)"

fun insertSorted ::
  "(CardDetection \<Rightarrow> CardDetection \<Rightarrow> real) \<Rightarrow> CardDetection \<Rightarrow> CardDetection list \<Rightarrow>
   CardDetection list" where
  "insertSorted cmp d [] = [d]"
| "insertSorted cmp d (e # es) = (if cmp d e \<le> 0 then d # e # es else e # insertSorted cmp d es)"

definition sortDetections ::
  "(CardDetection \<Rightarrow> CardDetection \<Rightarrow> real) \<Rightarrow> CardDetection list \<Rightarrow> CardDetection list" where
  "sortDetections cmp ds = foldr (insertSorted cmp) ds []"

text \<open>
  \<^verbatim>\<open>detectCardsOpenCV\<close>. When \<^verbatim>\<open>cv\<close> is defined and \<^verbatim>\<open>cv.Mat\<close> is not, the guard
  \<^verbatim>\<open>typeof cv === 'undefined'\<close> is passed and the second statement after it,
  \<^verbatim>\<open>new cv.Mat()\<close>, throws a \<^verbatim>\<open>TypeError\<close>, unless \<^verbatim>\<open>cv.matFromImageData\<close> has thrown before
  it; the model gives \<open>TypeError\<close> for the exception in both cases.

  The mat made from the image has \<^verbatim>\<open>imageData.width\<close> columns and \<^verbatim>\<open>imageData.height\<close>
  rows; \<^verbatim>\<open>Math.round\<close> rounds half up, as \<open>round\<close> does. \<open>resizeDims\<close> is the block that
  resizes the image: it gives the columns and rows of \<^verbatim>\<open>img\<close> and the factor \<^verbatim>\<open>scale\<close>.
  \<open>runStrategy\<close> is the call \<^verbatim>\<open>detectWithStrategy(img, scale, imgArea, strategy)\<close> of the
  loop over the strategies.
\<close>

definition resizeDims :: "ImageData \<Rightarrow> real \<times> real \<times> real" where
  "resizeDims imageData =
     (let maxWidth = 1200;
          cols = real (width imageData);
          rows = real (height imageData);
          factor = (if cols > maxWidth then maxWidth / cols else 1);
          imgCols = (if cols > maxWidth then maxWidth else cols);
          imgRows = (if cols > maxWidth then real_of_int (round (rows * factor)) else rows)
      in (imgCols, imgRows, factor))"

definition runStrategy :: "Engine \<Rightarrow> ImageData \<Rightarrow> Strategy \<Rightarrow> js_error + CardDetection list" where
  "runStrategy eng imageData params =
     (case resizeDims imageData of
        (imgCols, imgRows, factor) \<Rightarrow>
          let imgArea = imgRows * imgCols
          in detectWithStrategy eng imageData imgCols imgRows factor imgArea params)"

definition detectCardsOpenCV :: "CvGlobal \<Rightarrow> ImageData \<Rightarrow> js_error + CardDetection list" where
  "detectCardsOpenCV cv imageData =
     (case cv of
        CvUndefined \<Rightarrow> Inr []
      | CvDefined hasMat eng \<Rightarrow>
          if \<not> hasMat then Inl TypeError
          else
            (case strategyLoop (runStrategy eng imageData) strategies [] of
               Inl e \<Rightarrow> Inl e
             | Inr allCards \<Rightarrow> Inr (sortDetections (positionCompare (height imageData)) allCards)))"

text \<open>
  \<^verbatim>\<open>warpCardToImageData\<close>: \<open>Inr None\<close> is the return of \<^verbatim>\<open>null\<close>. Destructuring fewer than
  four corners leaves a name \<^verbatim>\<open>undefined\<close>, and reading its coordinate throws. When \<^verbatim>\<open>cv\<close>
  is defined and \<^verbatim>\<open>cv.Mat\<close> is not, \<^verbatim>\<open>new cv.Mat()\<close> throws as in \<^verbatim>\<open>detectCardsOpenCV\<close>.
\<close>

definition hypot :: "real \<Rightarrow> real \<Rightarrow> real" where
  "hypot a b = sqrt (a * a + b * b)"

definition warpCardToImageData ::
  "CvGlobal \<Rightarrow> ImageData \<Rightarrow> point list \<Rightarrow> nat \<Rightarrow> nat \<Rightarrow> js_error + ImageData option" where
  "warpCardToImageData cv imageData cornerPts outW outH =
     (case cv of
        CvUndefined \<Rightarrow> Inr None
      | CvDefined hasMat eng \<Rightarrow>
          (case cornerPts of
             tlc # trc # brc # blc # rest \<Rightarrow>
               let cardWidth = hypot (x trc - x tlc) (y trc - y tlc);
                   cardHeight = hypot (x blc - x tlc) (y blc - y tlc);
                   srcPts = (if cardWidth > cardHeight then [blc, tlc, trc, brc] else [tlc, trc, brc, blc])
               in if \<not> hasMat then Inl TypeError
                  else
                    (case warpPerspective eng imageData srcPts outW outH of
                       Inl e \<Rightarrow> Inl e
                     | Inr result \<Rightarrow> Inr (Some result))
           | _ \<Rightarrow> Inl TypeError))"

section \<open>The frame-processing hook\<close>

text \<open>
  \<^verbatim>\<open>ClassificationResult\<close> has the four property fields as numbers (class indices) and the
  probability vectors; \<^verbatim>\<open>ProcessedResult\<close> is the result of a frame. The cards of a frame
  carry the results of the table lookups of \<^verbatim>\<open>indicesToCard\<close>.
\<close>

record ClassificationResult = "(int, int, int, int) CardProps" +
  probabilities :: "(real list, real list, real list, real list) CardProps"

type_synonym RawCard = "(Shape option, Color option, Number option, Shading option) Card"

record ProcessedResult =
  cards :: "RawCard list"
  sets :: "(Shape option, Color option, Number option, Shading option) SetResult list"
  timestamp :: real
  inferenceTime :: real

text \<open>
  The state the hook keeps between calls: the guard \<^verbatim>\<open>isProcessingRef.current\<close>, the React
  state \<^verbatim>\<open>results\<close>, and whether \<^verbatim>\<open>classifierRef.current\<close> is set.
\<close>

record HookState =
  isProcessingRef :: bool
  results :: "ProcessedResult option"
  classifierRef :: bool

text \<open>
  What one call of \<^verbatim>\<open>processFrame\<close> reads from outside. \<^verbatim>\<open>processFrame\<close> is an \<^verbatim>\<open>async\<close>
  function: it runs without interruption up to an \<^verbatim>\<open>await\<close>, and other code can run, and
  change the global \<^verbatim>\<open>cv\<close>, only while it is suspended there. The only \<^verbatim>\<open>await\<close> of the
  function is the classification of a card. So \<open>cvGlobal env k\<close> is the value of the
  global \<^verbatim>\<open>cv\<close> after \<open>k\<close> awaits of the frame have completed, and \<open>classifyCall env k\<close> is
  the outcome of the classification awaited next (it throws, for one, when the model is
  not loaded). \<open>randomValues\<close> and \<open>clock\<close> are the successive results of \<^verbatim>\<open>Math.random()\<close>
  and of \<^verbatim>\<open>performance.now()\<close>; \<open>MOCK_MODE\<close> is the constant of the module.
\<close>

record FrameEnv =
  MOCK_MODE :: bool
  cvGlobal :: "nat \<Rightarrow> CvGlobal"
  classifyCall :: "nat \<Rightarrow> ImageData \<Rightarrow> js_error + ClassificationResult"
  randomValues :: "nat \<Rightarrow> real"
  clock :: "nat \<Rightarrow> real"

text \<open>
  \<^verbatim>\<open>generateMockCards\<close>: twelve cards on a grid of four columns. The object literal of card
  \<open>i\<close> calls \<^verbatim>\<open>Math.random()\<close> five times, for shape, color, number, shading and
  confidence, in this order.
\<close>

definition mockCard :: "(nat \<Rightarrow> real) \<Rightarrow> nat \<Rightarrow> RawCard" where
  "mockCard rnd i =
     (let cardWidth = 150; cardHeight = 200; cols = 4; startX = 100; startY = 100; gap = 20;
          col = real (i mod cols);
          row = real (i div cols)
      in \<lparr>shape = arrayGet SHAPES \<lfloor>rnd (5 * i) * 3\<rfloor>,
          color = arrayGet COLORS \<lfloor>rnd (5 * i + 1) * 3\<rfloor>,
          number = arrayGet NUMBERS \<lfloor>rnd (5 * i + 2) * 3\<rfloor>,
          shading = arrayGet SHADINGS \<lfloor>rnd (5 * i + 3) * 3\<rfloor>,
          id = i,
          Card.bbox =
            (startX + col * (cardWidth + gap),
             startY + row * (cardHeight + gap),
             startX + col * (cardWidth + gap) + cardWidth,
             startY + row * (cardHeight + gap) + cardHeight),
          Card.corners = None,
          Card.confidence = 0.9 + rnd (5 * i + 4) * 0.1\<rparr>)"

definition generateMockCards :: "(nat \<Rightarrow> real) \<Rightarrow> RawCard list" where
  "generateMockCards rnd = map (mockCard rnd) [0 ..< 12]"

text \<open>
  The loop of \<^verbatim>\<open>processFrame\<close> over the detections, from index \<open>idx\<close> on, after \<open>awaits\<close>
  completed awaits and with the cards pushed so far. A \<^verbatim>\<open>null\<close> from
  \<^verbatim>\<open>warpCardToImageData\<close> is a \<^verbatim>\<open>continue\<close>: the next iteration runs at once, with no
  \<^verbatim>\<open>await\<close> in between. An exception leaves the loop.
\<close>

fun classifyLoop ::
  "FrameEnv \<Rightarrow> ImageData \<Rightarrow> CardDetection list \<Rightarrow> nat \<Rightarrow> nat \<Rightarrow> RawCard list \<Rightarrow>
   js_error + RawCard list" where
  "classifyLoop env imageData [] idx awaits acc = Inr acc"
| "classifyLoop env imageData (detection # rest) idx awaits acc =
     (case warpCardToImageData (cvGlobal env awaits) imageData (CardDetection.corners detection) 200 300 of
        Inl e \<Rightarrow> Inl e
      | Inr None \<Rightarrow> classifyLoop env imageData rest (idx + 1) awaits acc
      | Inr (Some cardImageData) \<Rightarrow>
          (case classifyCall env awaits cardImageData of
             Inl e \<Rightarrow> Inl e
           | Inr classification \<Rightarrow>
               (case indicesToCard (shape classification) (color classification)
                       (number classification) (shading classification) of
                  Inl e \<Rightarrow> Inl e
                | Inr props \<Rightarrow>
                    classifyLoop env imageData rest (idx + 1) (awaits + 1)
                      (acc @ [\<lparr>shape = shape props, color = color props,
                               number = number props, shading = shading props,
                               id = idx,
                               Card.bbox = CardDetection.bbox detection,
                               Card.corners = Some (CardDetection.corners detection),
                               Card.confidence = CardDetection.confidence detection\<rparr>]))))"

text \<open>The part of the \<^verbatim>\<open>try\<close> block that computes the cards of the frame.\<close>

definition frameCards :: "HookState \<Rightarrow> FrameEnv \<Rightarrow> ImageData \<Rightarrow> js_error + RawCard list" where
  "frameCards st env imageData =
     (if MOCK_MODE env \<or> \<not> classifierRef st then Inr (generateMockCards (randomValues env))
      else if \<not> isOpenCVLoaded (cvGlobal env 0) then Inr (generateMockCards (randomValues env))
      else
        (case detectCardsOpenCV (cvGlobal env 0) imageData of
           Inl e \<Rightarrow> Inl e
         | Inr detections \<Rightarrow>
             if length detections = 0 then Inr []
             else classifyLoop env imageData detections 0 0 []))"

definition frameBody :: "HookState \<Rightarrow> FrameEnv \<Rightarrow> ImageData \<Rightarrow> js_error + ProcessedResult" where
  "frameBody st env imageData =
     (let startTime = clock env 0 in
      case frameCards st env imageData of
        Inl e \<Rightarrow> Inl e
      | Inr cs \<Rightarrow>
          Inr \<lparr>cards = cs, sets = findAllSets cs, timestamp = clock env 1,
               inferenceTime = clock env 2 - startTime\<rparr>)"

text \<open>
  \<^verbatim>\<open>processFrame\<close> in three parts. \<open>enterFrame\<close> is the guard: \<open>None\<close> when a frame is
  being processed, and the state with the guard set otherwise. \<open>leaveFrame\<close> is the end of
  the \<^verbatim>\<open>try\<close> statement: on success \<^verbatim>\<open>setResults(result)\<close> and the return of the result,
  on an exception the \<^verbatim>\<open>catch\<close> block, which returns \<^verbatim>\<open>null\<close>, and in both cases the
  \<^verbatim>\<open>finally\<close> block, which clears the guard. \<open>processFrame\<close> is a call that runs to its
  end; its second component is the value the promise resolves to (\<open>None\<close> is \<^verbatim>\<open>null\<close>).
\<close>

definition enterFrame :: "HookState \<Rightarrow> HookState option" where
  "enterFrame st = (if isProcessingRef st then None else Some (st\<lparr>isProcessingRef := True\<rparr>))"

definition leaveFrame ::
  "js_error + ProcessedResult \<Rightarrow> HookState \<Rightarrow> HookState \<times> ProcessedResult option" where
  "leaveFrame outcome st =
     (case outcome of
        Inr result \<Rightarrow> (st\<lparr>results := Some result, isProcessingRef := False\<rparr>, Some result)
      | Inl e \<Rightarrow> (st\<lparr>isProcessingRef := False\<rparr>, None))"

definition processFrame ::
  "HookState \<Rightarrow> FrameEnv \<Rightarrow> ImageData \<Rightarrow> HookState \<times> ProcessedResult option" where
  "processFrame st env imageData =
     (case enterFrame st of
        None \<Rightarrow> (st, None)
      | Some st1 \<Rightarrow> leaveFrame (frameBody st1 env imageData) st1)"

text \<open>
  Calls that overlap in time. A call of \<^verbatim>\<open>processFrame\<close> runs its guard at once; a call
  that passed the guard is in flight until its \<^verbatim>\<open>try\<close> statement ends, which happens in
  one uninterrupted step after its last \<^verbatim>\<open>await\<close>. \<open>inFlight\<close> counts the calls in flight;
  it is not a variable of the source. An event is a call of \<^verbatim>\<open>processFrame\<close> or the end of
  a call in flight, with the outcome of its body.
\<close>

datatype frame_event = Request | Settle "js_error + ProcessedResult"

record System =
  hook :: HookState
  inFlight :: nat

fun step :: "frame_event \<Rightarrow> System \<Rightarrow> System" where
  "step Request sys =
     (case enterFrame (hook sys) of
        None \<Rightarrow> sys
      | Some st1 \<Rightarrow> sys\<lparr>hook := st1, inFlight := inFlight sys + 1\<rparr>)"
| "step (Settle outcome) sys =
     (if inFlight sys = 0 then sys
      else sys\<lparr>hook := fst (leaveFrame outcome (hook sys)), inFlight := inFlight sys - 1\<rparr>)"

definition runEvents :: "frame_event list \<Rightarrow> System \<Rightarrow> System" where
  "runEvents events sys = fold step events sys"

section \<open>Notions of the specification and example inputs\<close>

text \<open>
  The definitions of this section are not code of the repository. They state, in the
  words of the specification, the notions the claims use, and name the concrete inputs at
  which theorems are evaluated.

  A point is a least (greatest) point of a list for a key when no point of the list has a
  smaller (larger) key; the extremes are unique when two least points are equal and two
  greatest points are equal. \<open>cross a b c\<close> is the cross product of the edges \<open>ab\<close> and
  \<open>bc\<close>: four points, in the order of the boundary, form a convex quadrilateral when the
  four turns have the same strict direction.
\<close>

definition least_by :: "(point \<Rightarrow> real) \<Rightarrow> point list \<Rightarrow> point \<Rightarrow> bool" where
  "least_by f ps p = (p \<in> set ps \<and> (\<forall>q \<in> set ps. f p \<le> f q))"

definition greatest_by :: "(point \<Rightarrow> real) \<Rightarrow> point list \<Rightarrow> point \<Rightarrow> bool" where
  "greatest_by f ps p = (p \<in> set ps \<and> (\<forall>q \<in> set ps. f q \<le> f p))"

definition extremes_unique :: "(point \<Rightarrow> real) \<Rightarrow> point list \<Rightarrow> bool" where
  "extremes_unique f ps =
     (\<forall>p \<in> set ps. \<forall>q \<in> set ps.
        (least_by f ps p \<and> least_by f ps q \<longrightarrow> p = q) \<and>
        (greatest_by f ps p \<and> greatest_by f ps q \<longrightarrow> p = q))"

definition cross :: "point \<Rightarrow> point \<Rightarrow> point \<Rightarrow> real" where
  "cross a b c = (x b - x a) * (y c - y b) - (y b - y a) * (x c - x b)"

fun convex_quadrilateral :: "point list \<Rightarrow> bool" where
  "convex_quadrilateral [a, b, c, d] =
     ((cross a b c > 0 \<and> cross b c d > 0 \<and> cross c d a > 0 \<and> cross d a b > 0) \<or>
      (cross a b c < 0 \<and> cross b c d < 0 \<and> cross c d a < 0 \<and> cross d a b < 0))"
| "convex_quadrilateral ps = False"

definition diamondQuad :: "point list" where
  "diamondQuad = [\<lparr>x = 1, y = 0\<rparr>, \<lparr>x = 2, y = 1\<rparr>, \<lparr>x = 1, y = 2\<rparr>, \<lparr>x = 0, y = 1\<rparr>]"

definition tiltedQuad :: "point list" where
  "tiltedQuad = [\<lparr>x = 1, y = 0\<rparr>, \<lparr>x = 4, y = 1\<rparr>, \<lparr>x = 3, y = 3\<rparr>, \<lparr>x = 0, y = 2\<rparr>]"

text \<open>
  A point is the first least (greatest) point of a list for a key when it is a least
  (greatest) point and no point before it in the list has the same key. \<open>bigPair\<close> is a
  list of two points whose sums \<open>x + y\<close> differ as reals and are equal as doubles.
\<close>

definition first_least_by :: "(point \<Rightarrow> real) \<Rightarrow> point list \<Rightarrow> point \<Rightarrow> bool" where
  "first_least_by f ps p =
     (\<exists>i < length ps. ps ! i = p \<and> (\<forall>q \<in> set ps. f p \<le> f q) \<and> (\<forall>j < i. f (ps ! j) \<noteq> f p))"

definition first_greatest_by :: "(point \<Rightarrow> real) \<Rightarrow> point list \<Rightarrow> point \<Rightarrow> bool" where
  "first_greatest_by f ps p =
     (\<exists>i < length ps. ps ! i = p \<and> (\<forall>q \<in> set ps. f q \<le> f p) \<and> (\<forall>j < i. f (ps ! j) \<noteq> f p))"

definition bigPair :: "point list" where
  "bigPair = [\<lparr>x = 9007199254740992, y = 1\<rparr>, \<lparr>x = 9007199254740992, y = 0\<rparr>]"


text \<open>
  The candidates of a frame: the detections of the strategies, in the order in which the
  loop of \<^verbatim>\<open>detectCardsOpenCV\<close> meets them (first all of the first strategy, then all of
  the second, then all of the third).
\<close>

definition strategyCandidates :: "Engine \<Rightarrow> ImageData \<Rightarrow> CardDetection list" where
  "strategyCandidates eng imageData =
     concat (map (\<lambda>params. case runStrategy eng imageData params of
                               Inl e \<Rightarrow> [] | Inr ds \<Rightarrow> ds) strategies)"



text \<open>
  An engine that reports three contours for every strategy, in an image of 1000 by 600
  pixels: the second contour fills 40% of its rectangle, the other two 90% and 80%; and
  the two detections the first and the third contour give.
\<close>

definition contourA :: Contour where
  "contourA = \<lparr>area = 12000, rectWidth = 100, rectHeight = 150,
     rectPoints = [\<lparr>x = 100, y = 100\<rparr>, \<lparr>x = 200, y = 100\<rparr>, \<lparr>x = 200, y = 250\<rparr>, \<lparr>x = 100, y = 250\<rparr>],
     satStd = 20\<rparr>"

definition contourB :: Contour where
  "contourB = \<lparr>area = 13500, rectWidth = 100, rectHeight = 150,
     rectPoints = [\<lparr>x = 400, y = 100\<rparr>, \<lparr>x = 500, y = 100\<rparr>, \<lparr>x = 500, y = 250\<rparr>, \<lparr>x = 400, y = 250\<rparr>],
     satStd = 20\<rparr>"

definition contourC :: Contour where
  "contourC = \<lparr>area = 6000, rectWidth = 100, rectHeight = 150,
     rectPoints = [\<lparr>x = 700, y = 100\<rparr>, \<lparr>x = 800, y = 100\<rparr>, \<lparr>x = 800, y = 250\<rparr>, \<lparr>x = 700, y = 250\<rparr>],
     satStd = 20\<rparr>"

definition exampleEngine :: Engine where
  "exampleEngine = \<lparr>findContours = (\<lambda>img factor params. Inr [contourB, contourC, contourA]),
     warpPerspective = (\<lambda>img pts w h. Inr \<lparr>width = w, height = h, data = []\<rparr>)\<rparr>"

definition exampleImage :: ImageData where
  "exampleImage = \<lparr>width = 1000, height = 600, data = []\<rparr>"

definition detectionA :: CardDetection where
  "detectionA = \<lparr>bbox = (100, 100, 200, 250),
     corners = [\<lparr>x = 100, y = 100\<rparr>, \<lparr>x = 200, y = 100\<rparr>, \<lparr>x = 200, y = 250\<rparr>, \<lparr>x = 100, y = 250\<rparr>],
     confidence = 0.8\<rparr>"

definition detectionB :: CardDetection where
  "detectionB = \<lparr>bbox = (400, 100, 500, 250),
     corners = [\<lparr>x = 400, y = 100\<rparr>, \<lparr>x = 500, y = 100\<rparr>, \<lparr>x = 500, y = 250\<rparr>, \<lparr>x = 400, y = 250\<rparr>],
     confidence = 0.9\<rparr>"

text \<open>
  Three more engines for the same image. \<open>crossEngine\<close> reports a different contour to
  each strategy: \<open>contourB\<close> to the first, \<open>contourA\<close> to the second, and to the third
  \<open>contourA2\<close>, which is \<open>contourA\<close> moved 10 pixels to the right. \<open>fortyEngine\<close> reports
  \<open>contourA\<close> to the first strategy and to the others \<open>contourA60\<close>, which is \<open>contourA\<close>
  moved 60 pixels to the right: the two bounding boxes, 100 by 150 each, share a strip of
  40 by 150. \<open>overfullEngine\<close> reports one contour whose area, 30000, is twice the area of
  its rectangle, 100 by 150. The detections are the ones these contours give.
\<close>

definition contourA2 :: Contour where
  "contourA2 = \<lparr>area = 12000, rectWidth = 100, rectHeight = 150,
     rectPoints = [\<lparr>x = 110, y = 100\<rparr>, \<lparr>x = 210, y = 100\<rparr>, \<lparr>x = 210, y = 250\<rparr>, \<lparr>x = 110, y = 250\<rparr>],
     satStd = 20\<rparr>"

definition detectionA2 :: CardDetection where
  "detectionA2 = \<lparr>bbox = (110, 100, 210, 250),
     corners = [\<lparr>x = 110, y = 100\<rparr>, \<lparr>x = 210, y = 100\<rparr>, \<lparr>x = 210, y = 250\<rparr>, \<lparr>x = 110, y = 250\<rparr>],
     confidence = 0.8\<rparr>"

definition crossEngine :: Engine where
  "crossEngine =
     \<lparr>findContours = (\<lambda>img factor params.
        if sThresh params = 60 then Inr [contourB]
        else if sThresh params = 80 then Inr [contourA]
        else Inr [contourA2]),
      warpPerspective = (\<lambda>img pts w h. Inr \<lparr>width = w, height = h, data = []\<rparr>)\<rparr>"






definition overfullDetection :: CardDetection where
  "overfullDetection = \<lparr>bbox = (100, 100, 200, 250),
     corners = [\<lparr>x = 100, y = 100\<rparr>, \<lparr>x = 200, y = 100\<rparr>, \<lparr>x = 200, y = 250\<rparr>, \<lparr>x = 100, y = 250\<rparr>],
     confidence = 2\<rparr>"

text \<open>
  A contour that fills exactly 60% of its rectangle, and the detection it gives.
\<close>

definition borderlineContour :: Contour where
  "borderlineContour = \<lparr>area = 9000, rectWidth = 100, rectHeight = 150,
     rectPoints = [\<lparr>x = 100, y = 100\<rparr>, \<lparr>x = 200, y = 100\<rparr>, \<lparr>x = 200, y = 250\<rparr>, \<lparr>x = 100, y = 250\<rparr>],
     satStd = 20\<rparr>"

definition borderlineDetection :: CardDetection where
  "borderlineDetection = \<lparr>bbox = (100, 100, 200, 250),
     corners = [\<lparr>x = 100, y = 100\<rparr>, \<lparr>x = 200, y = 100\<rparr>, \<lparr>x = 200, y = 250\<rparr>, \<lparr>x = 100, y = 250\<rparr>],
     confidence = 0.6\<rparr>"

text \<open>
  The guard and the count of calls in flight agree: at most one call is in flight, and
  the guard is set exactly when one is.
\<close>

definition guard_consistent :: "System \<Rightarrow> bool" where
  "guard_consistent sys =
     (inFlight sys \<le> 1 \<and> (isProcessingRef (hook sys) \<longleftrightarrow> inFlight sys = 1))"

text \<open>
  Hook states with the guard clear and set, and three environments of a frame: in
  \<open>skipEnv\<close> the engine of the example is loaded when the frame starts and the global
  \<^verbatim>\<open>cv\<close> is undefined after the first \<^verbatim>\<open>await\<close>, so that the second detection is skipped;
  in \<open>failingEnv\<close> the classifier throws. \<open>skipCard\<close> and \<open>skipResult\<close> are the card and
  the result of the frame that \<open>skipEnv\<close> gives.
\<close>

definition idleState :: HookState where
  "idleState = \<lparr>isProcessingRef = False, results = None, classifierRef = True\<rparr>"

definition exampleClassification :: ClassificationResult where
  "exampleClassification =
     \<lparr>shape = 0, color = 1, number = 2, shading = 0,
      probabilities = \<lparr>shape = [1, 0, 0], color = [0, 1, 0], number = [0, 0, 1], shading = [1, 0, 0]\<rparr>\<rparr>"

definition skipEnv :: FrameEnv where
  "skipEnv =
     \<lparr>MOCK_MODE = False,
      cvGlobal = (\<lambda>k. if k = 0 then CvDefined True exampleEngine else CvUndefined),
      classifyCall = (\<lambda>k img. Inr exampleClassification),
      randomValues = (\<lambda>k. 0),
      clock = (\<lambda>k. real k)\<rparr>"

definition skipCard :: RawCard where
  "skipCard =
     \<lparr>shape = Some Diamond, color = Some Green, number = Some Num3, shading = Some Solid,
      id = 0, Card.bbox = (100, 100, 200, 250),
      Card.corners = Some [\<lparr>x = 100, y = 100\<rparr>, \<lparr>x = 200, y = 100\<rparr>, \<lparr>x = 200, y = 250\<rparr>, \<lparr>x = 100, y = 250\<rparr>],
      Card.confidence = 0.8\<rparr>"

definition skipResult :: ProcessedResult where
  "skipResult = \<lparr>cards = [skipCard], sets = [], timestamp = 1, inferenceTime = 2\<rparr>"

definition busyState :: HookState where
  "busyState = \<lparr>isProcessingRef = True, results = None, classifierRef = True\<rparr>"

definition failingEnv :: FrameEnv where
  "failingEnv =
     \<lparr>MOCK_MODE = False,
      cvGlobal = (\<lambda>k. CvDefined True exampleEngine),
      classifyCall = (\<lambda>k img. Inl ClassifierError),
      randomValues = (\<lambda>k. 0),
      clock = (\<lambda>k. real k)\<rparr>"

text \<open>
  Typed cards for examples, and a list of four cards whose last two cards have the same
  four properties: \<open>(diamond, red, 1, solid)\<close>, \<open>(oval, red, 1, solid)\<close> and twice
  \<open>(squiggle, red, 1, solid)\<close>.
\<close>

definition exampleCard :: "Shape \<Rightarrow> Color \<Rightarrow> Number \<Rightarrow> Shading \<Rightarrow> nat \<Rightarrow> TCard" where
  "exampleCard s c n d i =
     \<lparr>shape = s, color = c, number = n, shading = d,
      id = i, Card.bbox = (0, 0, 0, 0), Card.corners = None, Card.confidence = 1\<rparr>"

definition duplicateCards :: "TCard list" where
  "duplicateCards =
     [exampleCard Diamond Red Num1 Solid 0, exampleCard Oval Red Num1 Solid 1,
      exampleCard Squiggle Red Num1 Solid 2, exampleCard Squiggle Red Num1 Solid 3]"

section \<open>Properties of the Set rule\<close>

lemma card3_cases:
  "card {a, b, c} = (if a = b \<and> b = c then 1 else if a \<noteq> b \<and> b \<noteq> c \<and> a \<noteq> c then 3 else 2)"
  by (auto simp: card_insert_if)

lemma isIdenticalOrDistinct_iff:
  "isIdenticalOrDistinct a b c = all_same_or_all_different a b c"
  unfolding isIdenticalOrDistinct_def all_same_or_all_different_def Let_def
  using card3_cases [of a b c] by (auto split: if_splits)

text \<open>
  Claim C1. For every triple of cards, \<^verbatim>\<open>isValidSet\<close> is true exactly when, for each of
  shape, color, number and shading independently, the number of distinct values among the
  three cards is not 2; and that is the case exactly when the three values are all equal
  or pairwise distinct.
\<close>

theorem isValidSet_rule:
  "(isValidSet c1 c2 c3 =
      (card {shape c1, shape c2, shape c3} \<noteq> 2 \<and>
       card {color c1, color c2, color c3} \<noteq> 2 \<and>
       card {number c1, number c2, number c3} \<noteq> 2 \<and>
       card {shading c1, shading c2, shading c3} \<noteq> 2)) \<and>
   (isValidSet c1 c2 c3 =
      (all_same_or_all_different (shape c1) (shape c2) (shape c3) \<and>
       all_same_or_all_different (color c1) (color c2) (color c3) \<and>
       all_same_or_all_different (number c1) (number c2) (number c3) \<and>
       all_same_or_all_different (shading c1) (shading c2) (shading c3)))"
proof
  show "isValidSet c1 c2 c3 =
      (card {shape c1, shape c2, shape c3} \<noteq> 2 \<and>
       card {color c1, color c2, color c3} \<noteq> 2 \<and>
       card {number c1, number c2, number c3} \<noteq> 2 \<and>
       card {shading c1, shading c2, shading c3} \<noteq> 2)"
    by (simp add: isValidSet_def isIdenticalOrDistinct_def)
next
  show "isValidSet c1 c2 c3 =
      (all_same_or_all_different (shape c1) (shape c2) (shape c3) \<and>
       all_same_or_all_different (color c1) (color c2) (color c3) \<and>
       all_same_or_all_different (number c1) (number c2) (number c3) \<and>
       all_same_or_all_different (shading c1) (shading c2) (shading c3))"
    by (simp only: isValidSet_def isIdenticalOrDistinct_iff)
qed

section \<open>The required third value\<close>

lemma getThirdValue_three:
  assumes "distinct [p, q, r]" "a \<in> {p, q, r}" "b \<in> {p, q, r}"
  shows "\<exists>c. getThirdValue a b [p, q, r] = Some c \<and> c \<in> {p, q, r} \<and>
             (\<forall>c'. c' \<in> {p, q, r} \<longrightarrow> (all_same_or_all_different a b c' \<longleftrightarrow> c' = c))"
  using assms by (auto simp: getThirdValue_def all_same_or_all_different_def)

text \<open>
  Claim C5. For every pair \<open>a\<close>, \<open>b\<close> of values of a domain of three distinct values,
  \<^verbatim>\<open>getThirdValue\<close> returns a value \<open>c\<close> of the domain for which the Set rule holds, no other
  value of the domain satisfies the rule with \<open>a\<close> and \<open>b\<close>, \<open>c = a\<close> when \<open>a = b\<close>, and \<open>c\<close> is
  the remaining value of the domain otherwise.
\<close>

theorem getThirdValue_unique:
  assumes "distinct vals" and "length vals = 3" and "a \<in> set vals" and "b \<in> set vals"
  shows "\<exists>c. getThirdValue a b vals = Some c \<and> c \<in> set vals \<and>
             isIdenticalOrDistinct a b c \<and>
             (\<forall>c' \<in> set vals. isIdenticalOrDistinct a b c' \<longrightarrow> c' = c) \<and>
             (if a = b then c = a else c \<noteq> a \<and> c \<noteq> b)"
proof -
  from assms(2) obtain p q r where vals: "vals = [p, q, r]"
    by (auto simp: length_Suc_conv numeral_3_eq_3)
  from assms(1,3,4) have d: "distinct [p, q, r]" and a: "a \<in> {p, q, r}" and b: "b \<in> {p, q, r}"
    by (simp_all add: vals)
  from getThirdValue_three [OF d a b] obtain c where
    c: "getThirdValue a b [p, q, r] = Some c" "c \<in> {p, q, r}"
       "\<forall>c'. c' \<in> {p, q, r} \<longrightarrow> (all_same_or_all_different a b c' \<longleftrightarrow> c' = c)"
    by blast
  have rule: "all_same_or_all_different a b c"
    using c(2,3) by blast
  have shape_c: "if a = b then c = a else c \<noteq> a \<and> c \<noteq> b"
    using rule by (auto simp: all_same_or_all_different_def)
  show ?thesis
    using c rule shape_c by (auto simp: vals isIdenticalOrDistinct_iff)
qed

theorem getThirdValue_unique_witness:
  "distinct SHAPES \<and> length SHAPES = 3 \<and> Diamond \<in> set SHAPES \<and> Oval \<in> set SHAPES \<and>
   getThirdValue Diamond Oval SHAPES = Some Squiggle \<and>
   (\<exists>c. getThirdValue Diamond Oval SHAPES = Some c \<and> c \<in> set SHAPES \<and>
        isIdenticalOrDistinct Diamond Oval c \<and>
        (\<forall>c' \<in> set SHAPES. isIdenticalOrDistinct Diamond Oval c' \<longrightarrow> c' = c) \<and>
        (if Diamond = Oval then c = Diamond else c \<noteq> Diamond \<and> c \<noteq> Oval))"
proof -
  have h: "distinct SHAPES" "length SHAPES = 3" "Diamond \<in> set SHAPES" "Oval \<in> set SHAPES"
    by (simp_all add: SHAPES_def)
  have v: "getThirdValue Diamond Oval SHAPES = Some Squiggle"
    by (simp add: getThirdValue_def SHAPES_def)
  from h v getThirdValue_unique [OF h] show ?thesis
    by blast
qed

section \<open>Index-to-card conversion\<close>

text \<open>
  Claim C9, as stated, fails on the code: an index outside \<open>[0,3)\<close> is not fatal. The call
  \<^verbatim>\<open>indicesToCard(3, 0, 0, 0)\<close> returns an object whose \<^verbatim>\<open>shape\<close> is \<^verbatim>\<open>undefined\<close>.
\<close>

theorem indicesToCard_out_of_range_counterexample:
  "indicesToCard 3 0 0 0 =
     Inr \<lparr>shape = None, color = Some Red, number = Some Num1, shading = Some Solid\<rparr> \<and>
   \<not> isl (indicesToCard 3 0 0 0)"
  by (simp add: indicesToCard_def arrayGet_def SHAPES_def COLORS_def NUMBERS_def SHADINGS_def)

text \<open>
  Claim C9, amended. \<^verbatim>\<open>indicesToCard\<close> never throws. Each field of its result is the read of
  its table at the given index: the table's value at that position for an index in
  \<open>[0,3)\<close>, and \<^verbatim>\<open>undefined\<close> for any other index, the other fields being unaffected.
\<close>

theorem indicesToCard_lookup:
  "indicesToCard si ci ni di =
     Inr \<lparr>shape = (if 0 \<le> si \<and> si < 3 then Some (SHAPES ! nat si) else None),
          color = (if 0 \<le> ci \<and> ci < 3 then Some (COLORS ! nat ci) else None),
          number = (if 0 \<le> ni \<and> ni < 3 then Some (NUMBERS ! nat ni) else None),
          shading = (if 0 \<le> di \<and> di < 3 then Some (SHADINGS ! nat di) else None)\<rparr>"
  by (simp add: indicesToCard_def arrayGet_def SHAPES_def COLORS_def NUMBERS_def SHADINGS_def)

section \<open>Double precision at small integers\<close>

text \<open>
  \<open>toDouble\<close> leaves every integer below \<open>2 ^ 53\<close> in absolute value as it is, rounds
  \<open>2 ^ 53 + 1\<close> to \<open>2 ^ 53\<close>, and gives \<^verbatim>\<open>Infinity\<close> for \<open>2 ^ 1024\<close>, the sum of the double
  \<open>2 ^ 1023\<close> and itself.
\<close>

lemma roundHalfEven_int: "roundHalfEven (real_of_int m) = m"
  by (simp add: roundHalfEven_def)

lemma binade_small:
  assumes "n \<noteq> 0" and "\<bar>real_of_int n\<bar> < 2 ^ 53"
  shows "0 \<le> binade (real_of_int n) \<and> binade (real_of_int n) \<le> 52"
proof -
  from assms(1) have "1 \<le> \<bar>n\<bar>" by simp
  then have "real_of_int 1 \<le> real_of_int \<bar>n\<bar>" by (simp only: of_int_le_iff)
  then have one: "1 \<le> \<bar>real_of_int n\<bar>" by simp
  then have "0 \<le> log 2 \<bar>real_of_int n\<bar>" by simp
  then have lo: "0 \<le> \<lfloor>log 2 \<bar>real_of_int n\<bar>\<rfloor>" by simp
  have "log 2 \<bar>real_of_int n\<bar> < log 2 (2 ^ 53)"
    using assms(2) one by (subst log_less_cancel_iff) simp_all
  also have "log 2 ((2::real) ^ 53) = 53"
  proof -
    have "log 2 ((2::real) ^ 53) = real 53 * log 2 2" by (rule log_nat_power) simp
    then show ?thesis by simp
  qed
  finally have "\<lfloor>log 2 \<bar>real_of_int n\<bar>\<rfloor> < 53" by (simp add: floor_less_iff)
  with lo show ?thesis by (simp add: binade_def)
qed

lemma nearestDouble_of_int:
  assumes "\<bar>real_of_int n\<bar> < 2 ^ 53"
  shows "nearestDouble (real_of_int n) = real_of_int n"
proof (cases "n = 0")
  case True
  then show ?thesis by (simp add: nearestDouble_def)
next
  case False
  define e where "e = binade (real_of_int n)"
  from binade_small [OF False assms] have e: "0 \<le> e" "e \<le> 52" by (simp_all add: e_def)
  define k where "k = nat (52 - e)"
  have ulp: "power_int (2::real) (e - 52) = 1 / 2 ^ k"
    using e by (simp add: power_int_def k_def field_simps)
  have q: "real_of_int n / (1 / 2 ^ k) = real_of_int (n * 2 ^ k)" by simp
  have "nearestDouble (real_of_int n) = real_of_int (roundHalfEven (real_of_int (n * 2 ^ k))) * (1 / 2 ^ k)"
    using False unfolding nearestDouble_def Let_def e_def [symmetric] ulp q by simp
  also have "\<dots> = real_of_int n" by (simp only: roundHalfEven_int) simp
  finally show ?thesis .
qed

lemma toDouble_finite: "\<bar>nearestDouble r\<bar> < jsInfinity \<Longrightarrow> toDouble r = nearestDouble r"
  by (auto simp: toDouble_def Let_def)

lemma toDouble_of_int:
  assumes "\<bar>real_of_int n\<bar> < 2 ^ 53"
  shows "toDouble (real_of_int n) = real_of_int n"
proof -
  have "(2::real) ^ 53 < jsInfinity" by (simp add: jsInfinity_def)
  with assms have "\<bar>nearestDouble (real_of_int n)\<bar> < jsInfinity"
    by (simp only: nearestDouble_of_int [OF assms])
  from toDouble_finite [OF this] nearestDouble_of_int [OF assms] show ?thesis by simp
qed

lemma toDouble_numeral:
  "(numeral w :: real) < 9007199254740992 \<Longrightarrow> toDouble (numeral w) = numeral w"
  using toDouble_of_int [of "numeral w"] by simp

lemma toDouble_neg_numeral:
  "(numeral w :: real) < 9007199254740992 \<Longrightarrow> toDouble (- numeral w) = - numeral w"
  using toDouble_of_int [of "- numeral w"] by simp

lemma toDouble_0: "toDouble 0 = 0"
  using toDouble_of_int [of 0] by simp

lemma toDouble_1: "toDouble 1 = 1"
  using toDouble_of_int [of 1] by simp

lemma toDouble_neg_1: "toDouble (- 1) = - 1"
  using toDouble_of_int [of "- 1"] by simp

lemmas toDouble_exact = toDouble_numeral toDouble_neg_numeral toDouble_0 toDouble_1 toDouble_neg_1

lemma binade_two_53: "binade 9007199254740993 = 53" "binade 9007199254740992 = 53"
proof -
  have "\<lfloor>log 2 (9007199254740993::real)\<rfloor> = 53"
    by (simp add: floor_eq_iff le_log_iff log_less_iff)
  then show "binade 9007199254740993 = 53" by (simp add: binade_def)
  have "\<lfloor>log 2 (9007199254740992::real)\<rfloor> = 53"
    by (simp add: floor_eq_iff le_log_iff log_less_iff)
  then show "binade 9007199254740992 = 53" by (simp add: binade_def)
qed

lemma nearestDouble_two_53:
  "nearestDouble 9007199254740993 = 9007199254740992"
  "nearestDouble 9007199254740992 = 9007199254740992"
  "nearestDouble (- 9007199254740992) = - 9007199254740992"
proof -
  have "binade (- 9007199254740992) = 53"
    using binade_two_53(2) by (simp add: binade_def)
  moreover have "roundHalfEven (- 4503599627370496) = - 4503599627370496"
    using roundHalfEven_int [of "- 4503599627370496"] by simp
  ultimately show "nearestDouble (- 9007199254740992) = - 9007199254740992"
    by (simp add: nearestDouble_def power_int_def)
  have f: "\<lfloor>(9007199254740993::real) / 2\<rfloor> = 4503599627370496"
    by (simp add: floor_eq_iff)
  have "roundHalfEven (9007199254740993 / 2) = 4503599627370496"
    unfolding roundHalfEven_def Let_def f by simp
  then show "nearestDouble 9007199254740993 = 9007199254740992"
    by (simp add: nearestDouble_def binade_two_53 power_int_def)
  have g: "\<lfloor>(9007199254740992::real) / 2\<rfloor> = 4503599627370496"
    by (simp add: floor_eq_iff)
  have "roundHalfEven (9007199254740992 / 2) = 4503599627370496"
    unfolding roundHalfEven_def Let_def g by simp
  then show "nearestDouble 9007199254740992 = 9007199254740992"
    by (simp add: nearestDouble_def binade_two_53 power_int_def)
qed

lemma toDouble_two_53:
  "toDouble 9007199254740993 = 9007199254740992" "toDouble 9007199254740992 = 9007199254740992"
  "toDouble (- 9007199254740992) = - 9007199254740992"
  by (simp_all add: toDouble_finite nearestDouble_two_53 jsInfinity_def)

lemma toDouble_overflow: "toDouble (2 ^ 1023 + 2 ^ 1023) = jsInfinity"
proof -
  have v: "(2::real) ^ 1023 + 2 ^ 1023 = 2 ^ 1024" by simp
  have "log 2 ((2::real) ^ 1024) = real 1024 * log 2 2" by (rule log_nat_power) simp
  then have b: "binade (2 ^ 1024) = 1024" by (simp add: binade_def)
  have u: "power_int (2::real) (1024 - 52) = 2 ^ 972" by (simp add: power_int_def)
  have "(2::real) ^ 1024 = 2 ^ 52 * 2 ^ 972" by (simp only: power_add [symmetric]) simp
  then have q: "(2::real) ^ 1024 / 2 ^ 972 = real_of_int (2 ^ 52)" by simp
  have "nearestDouble (2 ^ 1024) = real_of_int (roundHalfEven (real_of_int (2 ^ 52))) * 2 ^ 972"
    unfolding nearestDouble_def Let_def b u q by simp
  also have "\<dots> = 2 ^ 52 * 2 ^ 972" by (simp only: roundHalfEven_int) simp
  also have "\<dots> = 2 ^ 1024" by (simp only: power_add [symmetric]) simp
  finally have "nearestDouble (2 ^ 1024) = jsInfinity" by (simp only: jsInfinity_def)
  then show ?thesis unfolding v by (simp add: toDouble_def)
qed

section \<open>Corner ordering\<close>

lemma fold_min_least:
  "fold min vs v \<in> set (v # vs) \<and> (\<forall>u \<in> set (v # vs). fold min vs (v::real) \<le> u)"
proof (induction vs arbitrary: v)
  case Nil
  show ?case by simp
next
  case (Cons w ws)
  from Cons.IH [of "min w v"] show ?case
    by (auto simp: min_def split: if_splits)
qed

lemma fold_max_greatest:
  "fold max vs v \<in> set (v # vs) \<and> (\<forall>u \<in> set (v # vs). u \<le> fold max vs (v::real))"
proof (induction vs arbitrary: v)
  case Nil
  show ?case by simp
next
  case (Cons w ws)
  from Cons.IH [of "max w v"] show ?case
    by (auto simp: max_def split: if_splits)
qed

lemma mathMin_least:
  "vs \<noteq> [] \<Longrightarrow> \<exists>m. mathMin vs = Some m \<and> m \<in> set vs \<and> (\<forall>v \<in> set vs. m \<le> v)"
  using fold_min_least by (cases vs) (auto simp: mathMin_def)

lemma mathMax_greatest:
  "vs \<noteq> [] \<Longrightarrow> \<exists>m. mathMax vs = Some m \<and> m \<in> set vs \<and> (\<forall>v \<in> set vs. v \<le> m)"
  using fold_max_greatest by (cases vs) (auto simp: mathMax_def)

lemma indexOf_map:
  "m \<in> f ` set ps \<Longrightarrow>
     \<exists>i. indexOf (map f ps) m = Some i \<and> i < length ps \<and> f (ps ! i) = m \<and>
         (\<forall>j < i. f (ps ! j) \<noteq> m)"
proof (induction ps)
  case Nil
  then show ?case by simp
next
  case (Cons p ps)
  show ?case
  proof (cases "f p = m")
    case True
    then show ?thesis by simp
  next
    case False
    with Cons.prems have "m \<in> f ` set ps" by auto
    from Cons.IH [OF this] obtain i where
      i: "indexOf (map f ps) m = Some i" "i < length ps" "f (ps ! i) = m" "\<forall>j < i. f (ps ! j) \<noteq> m"
      by blast
    have "\<forall>j < Suc i. f ((p # ps) ! j) \<noteq> m"
      using False i(4) by (auto simp: nth_Cons split: nat.splits)
    with False i(1-3) show ?thesis by simp
  qed
qed

lemma elementAt_map:
  assumes "m \<in> f ` set ps"
  shows "\<exists>i < length ps. elementAt ps (map f ps) (Some m) = Some (ps ! i) \<and> f (ps ! i) = m \<and>
           (\<forall>j < i. f (ps ! j) \<noteq> m)"
proof -
  from indexOf_map [OF assms] obtain i where
    i: "indexOf (map f ps) m = Some i" "i < length ps" "f (ps ! i) = m" "\<forall>j < i. f (ps ! j) \<noteq> m"
    by blast
  then show ?thesis by (auto simp: elementAt_def)
qed

lemma pick_least:
  assumes "ps \<noteq> []"
  shows "\<exists>p. elementAt ps (map f ps) (mathMin (map f ps)) = Some p \<and> first_least_by f ps p"
proof -
  from assms have "map f ps \<noteq> []" by simp
  from mathMin_least [OF this] obtain m where
    m: "mathMin (map f ps) = Some m" "m \<in> set (map f ps)" "\<forall>v \<in> set (map f ps). m \<le> v"
    by blast
  from m(2) have "m \<in> f ` set ps" by simp
  from elementAt_map [OF this] obtain i where
    i: "i < length ps" "elementAt ps (map f ps) (Some m) = Some (ps ! i)" "f (ps ! i) = m"
       "\<forall>j < i. f (ps ! j) \<noteq> m"
    by blast
  have "first_least_by f ps (ps ! i)"
    unfolding first_least_by_def using i m(3) by auto
  with m(1) i(2) show ?thesis by simp
qed

lemma pick_greatest:
  assumes "ps \<noteq> []"
  shows "\<exists>p. elementAt ps (map f ps) (mathMax (map f ps)) = Some p \<and> first_greatest_by f ps p"
proof -
  from assms have "map f ps \<noteq> []" by simp
  from mathMax_greatest [OF this] obtain m where
    m: "mathMax (map f ps) = Some m" "m \<in> set (map f ps)" "\<forall>v \<in> set (map f ps). v \<le> m"
    by blast
  from m(2) have "m \<in> f ` set ps" by simp
  from elementAt_map [OF this] obtain i where
    i: "i < length ps" "elementAt ps (map f ps) (Some m) = Some (ps ! i)" "f (ps ! i) = m"
       "\<forall>j < i. f (ps ! j) \<noteq> m"
    by blast
  have "first_greatest_by f ps (ps ! i)"
    unfolding first_greatest_by_def using i m(3) by auto
  with m(1) i(2) show ?thesis by simp
qed

lemma orderCorners_first:
  assumes "ps \<noteq> []"
  shows "\<exists>a b c d. orderCorners ps = [Some a, Some b, Some c, Some d] \<and>
           first_least_by cornerSum ps a \<and> first_least_by cornerDiff ps b \<and>
           first_greatest_by cornerSum ps c \<and> first_greatest_by cornerDiff ps d"
  using pick_least [OF assms, of cornerSum] pick_least [OF assms, of cornerDiff]
    pick_greatest [OF assms, of cornerSum] pick_greatest [OF assms, of cornerDiff]
  by (auto simp: orderCorners_def Let_def)

lemma first_least_is_least: "first_least_by f ps p \<Longrightarrow> least_by f ps p"
  by (auto simp: first_least_by_def least_by_def)

lemma first_greatest_is_greatest: "first_greatest_by f ps p \<Longrightarrow> greatest_by f ps p"
  by (auto simp: first_greatest_by_def greatest_by_def)

lemma least_by_cong: "set qs = set ps \<Longrightarrow> least_by f qs p = least_by f ps p"
  by (simp add: least_by_def)

lemma greatest_by_cong: "set qs = set ps \<Longrightarrow> greatest_by f qs p = greatest_by f ps p"
  by (simp add: greatest_by_def)

text \<open>
  Claim C6, amended. The keys are the doubles \<^verbatim>\<open>p.x + p.y\<close> and \<^verbatim>\<open>p.y - p.x\<close> as the source
  computes them. For every non-empty list of points, \<^verbatim>\<open>orderCorners\<close> returns, in this
  order, the first point of the list with the least sum, the first with the least
  difference, the first with the greatest sum and the first with the greatest difference;
  the same point can stand for several corners. When the least and the greatest sum and
  the least and the greatest difference are each attained by one point only, the result
  is the same for every rearrangement of the points (cyclic, reversed or any other: the
  two lists hold the same points). Convexity is not needed.
\<close>

theorem orderCorners_order_independent:
  assumes ne: "ps \<noteq> []"
  shows "(\<exists>a b c d. orderCorners ps = [Some a, Some b, Some c, Some d] \<and>
            first_least_by cornerSum ps a \<and> first_least_by cornerDiff ps b \<and>
            first_greatest_by cornerSum ps c \<and> first_greatest_by cornerDiff ps d) \<and>
         (set qs = set ps \<and> extremes_unique cornerSum ps \<and> extremes_unique cornerDiff ps \<longrightarrow>
            orderCorners qs = orderCorners ps)"
proof
  show "\<exists>a b c d. orderCorners ps = [Some a, Some b, Some c, Some d] \<and>
            first_least_by cornerSum ps a \<and> first_least_by cornerDiff ps b \<and>
            first_greatest_by cornerSum ps c \<and> first_greatest_by cornerDiff ps d"
    by (rule orderCorners_first [OF ne])
next
  show "set qs = set ps \<and> extremes_unique cornerSum ps \<and> extremes_unique cornerDiff ps \<longrightarrow>
            orderCorners qs = orderCorners ps"
  proof
    assume h: "set qs = set ps \<and> extremes_unique cornerSum ps \<and> extremes_unique cornerDiff ps"
    then have same: "set qs = set ps" and us: "extremes_unique cornerSum ps"
      and ud: "extremes_unique cornerDiff ps"
      by simp_all
    from same ne have neq: "qs \<noteq> []" by auto
    from orderCorners_first [OF ne] obtain a b c d where
      p: "orderCorners ps = [Some a, Some b, Some c, Some d]"
         "first_least_by cornerSum ps a" "first_least_by cornerDiff ps b"
         "first_greatest_by cornerSum ps c" "first_greatest_by cornerDiff ps d"
      by blast
    from orderCorners_first [OF neq] obtain a' b' c' d' where
      q: "orderCorners qs = [Some a', Some b', Some c', Some d']"
         "first_least_by cornerSum qs a'" "first_least_by cornerDiff qs b'"
         "first_greatest_by cornerSum qs c'" "first_greatest_by cornerDiff qs d'"
      by blast
    note pl = p(2,3) [THEN first_least_is_least] and pg = p(4,5) [THEN first_greatest_is_greatest]
    note ql = q(2,3) [THEN first_least_is_least, unfolded least_by_cong [OF same]]
      and qg = q(4,5) [THEN first_greatest_is_greatest, unfolded greatest_by_cong [OF same]]
    have "a' = a" using us pl(1) ql(1) unfolding extremes_unique_def least_by_def by blast
    moreover have "c' = c" using us pg(1) qg(1) unfolding extremes_unique_def greatest_by_def by blast
    moreover have "b' = b" using ud pl(2) ql(2) unfolding extremes_unique_def least_by_def by blast
    moreover have "d' = d" using ud pg(2) qg(2) unfolding extremes_unique_def greatest_by_def by blast
    ultimately show "orderCorners qs = orderCorners ps" using p(1) q(1) by simp
  qed
qed

lemma orderCorners_diamond:
  "orderCorners diamondQuad =
     [Some \<lparr>x = 1, y = 0\<rparr>, Some \<lparr>x = 1, y = 0\<rparr>, Some \<lparr>x = 2, y = 1\<rparr>, Some \<lparr>x = 1, y = 2\<rparr>]"
  "orderCorners (rotate1 diamondQuad) =
     [Some \<lparr>x = 0, y = 1\<rparr>, Some \<lparr>x = 2, y = 1\<rparr>, Some \<lparr>x = 2, y = 1\<rparr>, Some \<lparr>x = 1, y = 2\<rparr>]"
  by (simp_all add: diamondQuad_def orderCorners_def cornerSum_def cornerDiff_def toDouble_exact
      mathMin_def mathMax_def elementAt_def)

text \<open>
  Claim C6, as stated, fails on the code. \<^verbatim>\<open>indexOf\<close> takes the first point that attains
  an extreme value, so with ties the result depends on the order of the input: the four
  points \<open>(1,0)\<close>, \<open>(2,1)\<close>, \<open>(1,2)\<close>, \<open>(0,1)\<close> form a convex quadrilateral, two of them
  have the least \<open>x + y\<close>, and rotating the list by one position changes the result.
\<close>

theorem orderCorners_counterexample:
  "convex_quadrilateral diamondQuad \<and> orderCorners (rotate1 diamondQuad) \<noteq> orderCorners diamondQuad"
  by (simp add: orderCorners_diamond) (simp add: diamondQuad_def cross_def)

text \<open>
  Ties also arise from rounding: the points \<open>(2 ^ 53, 1)\<close> and \<open>(2 ^ 53, 0)\<close> have different
  sums, the doubles of the sums are equal, and reversing the list changes the result.
\<close>

lemma orderCorners_bigPair:
  "orderCorners bigPair =
     [Some \<lparr>x = 9007199254740992, y = 1\<rparr>, Some \<lparr>x = 9007199254740992, y = 0\<rparr>,
      Some \<lparr>x = 9007199254740992, y = 1\<rparr>, Some \<lparr>x = 9007199254740992, y = 1\<rparr>]"
  "orderCorners (rev bigPair) =
     [Some \<lparr>x = 9007199254740992, y = 0\<rparr>, Some \<lparr>x = 9007199254740992, y = 0\<rparr>,
      Some \<lparr>x = 9007199254740992, y = 0\<rparr>, Some \<lparr>x = 9007199254740992, y = 1\<rparr>]"
  by (simp_all add: bigPair_def orderCorners_def cornerSum_def cornerDiff_def toDouble_exact
      toDouble_two_53 mathMin_def mathMax_def elementAt_def)

lemma bigPair_ties:
  "\<not> extremes_unique cornerSum bigPair \<and> orderCorners (rev bigPair) \<noteq> orderCorners bigPair"
  by (simp add: orderCorners_bigPair)
     (simp add: extremes_unique_def least_by_def greatest_by_def bigPair_def cornerSum_def
       toDouble_two_53)

lemma tilted_unique:
  "extremes_unique cornerSum tiltedQuad" "extremes_unique cornerDiff tiltedQuad"
  by (simp_all add: extremes_unique_def least_by_def greatest_by_def tiltedQuad_def
      cornerSum_def cornerDiff_def toDouble_exact)

lemma tilted_corners:
  "orderCorners tiltedQuad =
     [Some \<lparr>x = 1, y = 0\<rparr>, Some \<lparr>x = 4, y = 1\<rparr>, Some \<lparr>x = 3, y = 3\<rparr>, Some \<lparr>x = 0, y = 2\<rparr>]"
  by (simp add: tiltedQuad_def orderCorners_def cornerSum_def cornerDiff_def toDouble_exact
      mathMin_def mathMax_def elementAt_def)

theorem orderCorners_order_independent_witness:
  "tiltedQuad \<noteq> [] \<and> set (rev tiltedQuad) = set tiltedQuad \<and>
   extremes_unique cornerSum tiltedQuad \<and> extremes_unique cornerDiff tiltedQuad \<and>
   orderCorners (rev tiltedQuad) = orderCorners tiltedQuad \<and>
   orderCorners tiltedQuad =
     [Some \<lparr>x = 1, y = 0\<rparr>, Some \<lparr>x = 4, y = 1\<rparr>, Some \<lparr>x = 3, y = 3\<rparr>, Some \<lparr>x = 0, y = 2\<rparr>] \<and>
   (\<exists>a b c d. orderCorners tiltedQuad = [Some a, Some b, Some c, Some d] \<and>
      first_least_by cornerSum tiltedQuad a \<and> first_least_by cornerDiff tiltedQuad b \<and>
      first_greatest_by cornerSum tiltedQuad c \<and> first_greatest_by cornerDiff tiltedQuad d)"
proof -
  have s: "set (rev tiltedQuad) = set tiltedQuad" by simp
  have n: "tiltedQuad \<noteq> []" by (simp add: tiltedQuad_def)
  from orderCorners_order_independent [OF n, of "rev tiltedQuad"] s n tilted_unique tilted_corners
  show ?thesis by simp
qed

section \<open>The example engines, evaluated\<close>

lemmas evalCorners = processContour_def orderCorners_def cornerSum_def cornerDiff_def toDouble_exact
  mathMin_def mathMax_def elementAt_def boundingBox_def

lemma processContour_contourA: "processContour 1000 600 1 600000 contourA = Inr (Some detectionA)"
  by (simp add: evalCorners contourA_def detectionA_def)

lemma processContour_contourB: "processContour 1000 600 1 600000 contourB = Inr (Some detectionB)"
  by (simp add: evalCorners contourB_def detectionB_def)

lemma processContour_contourC: "processContour 1000 600 1 600000 contourC = Inr None"
  by (simp add: processContour_def contourC_def)

lemma processContour_contourA2: "processContour 1000 600 1 600000 contourA2 = Inr (Some detectionA2)"
  by (simp add: evalCorners contourA2_def detectionA2_def)


lemma exampleImage_size: "width exampleImage = 1000" "height exampleImage = 600"
  by (simp_all add: exampleImage_def)

lemma resizeDims_example: "resizeDims exampleImage = (1000, 600, 1)"
  by (simp add: resizeDims_def exampleImage_size)

lemma runStrategy_example:
  "runStrategy exampleEngine exampleImage params = Inr [detectionB, detectionA]"
  by (simp add: runStrategy_def resizeDims_example detectWithStrategy_def exampleEngine_def
      processContour_contourA processContour_contourB processContour_contourC)

lemma runStrategy_cross:
  "runStrategy crossEngine exampleImage params =
     (if sThresh params = 60 then Inr [detectionB]
      else if sThresh params = 80 then Inr [detectionA] else Inr [detectionA2])"
  by (simp add: runStrategy_def resizeDims_example detectWithStrategy_def crossEngine_def
      processContour_contourA processContour_contourB processContour_contourA2)


lemma example_overlaps:
  "\<not> rectanglesOverlap (bbox detectionB) (bbox detectionA) (2 / 5)"
  "\<not> rectanglesOverlap (bbox detectionA) (bbox detectionB) (2 / 5)"
  "rectanglesOverlap (bbox detectionA) (bbox detectionA) (2 / 5)"
  "rectanglesOverlap (bbox detectionB) (bbox detectionB) (2 / 5)"
  "rectanglesOverlap (bbox detectionA) (bbox detectionA2) (2 / 5)"
  "\<not> rectanglesOverlap (bbox detectionB) (bbox detectionA2) (2 / 5)"
  "rectanglesOverlap (bbox overfullDetection) (bbox overfullDetection) (2 / 5)"
  by (simp_all add: rectanglesOverlap_def detectionA_def detectionB_def detectionA2_def
      overfullDetection_def)

lemma strategyLoop_example:
  "strategyLoop (runStrategy exampleEngine exampleImage) strategies [] = Inr [detectionB, detectionA]"
  by (simp add: strategies_def runStrategy_example example_overlaps)

lemma strategyLoop_cross:
  "strategyLoop (runStrategy crossEngine exampleImage) strategies [] = Inr [detectionB, detectionA]"
  by (simp add: strategies_def runStrategy_cross example_overlaps)


lemma sortDetections_example:
  "sortDetections (positionCompare 600) [detectionB, detectionA] = [detectionA, detectionB]"
  "sortDetections (positionCompare 600) [overfullDetection] = [overfullDetection]"
  by (simp_all add: sortDetections_def positionCompare_def detectionA_def detectionB_def)

lemma detectCardsOpenCV_example:
  "detectCardsOpenCV (CvDefined True exampleEngine) exampleImage = Inr [detectionA, detectionB]"
  by (simp add: detectCardsOpenCV_def exampleImage_size strategyLoop_example sortDetections_example)

lemma detectCardsOpenCV_cross:
  "detectCardsOpenCV (CvDefined True crossEngine) exampleImage = Inr [detectionA, detectionB]"
  by (simp add: detectCardsOpenCV_def exampleImage_size strategyLoop_cross sortDetections_example)








lemma strategyCandidates_cross:
  "strategyCandidates crossEngine exampleImage = [detectionB, detectionA, detectionA2]"
  by (simp add: strategyCandidates_def strategies_def runStrategy_cross)

section \<open>Detector with its engine missing or not initialised\<close>

text \<open>
  Claim C7 holds when the global \<^verbatim>\<open>cv\<close> is undefined and fails when \<^verbatim>\<open>cv\<close> is defined and the
  engine is not initialised, the state in which \<^verbatim>\<open>isOpenCVLoaded\<close> answers false because
  \<^verbatim>\<open>cv.Mat\<close> is undefined: the guard \<^verbatim>\<open>typeof cv === 'undefined'\<close> of \<^verbatim>\<open>detectCardsOpenCV\<close>
  and of \<^verbatim>\<open>warpCardToImageData\<close> lets that state pass, and both functions throw a
  \<^verbatim>\<open>TypeError\<close>, for every image and every list of corners, where the claim has an empty
  list and \<^verbatim>\<open>null\<close> and no exception.
\<close>

theorem engine_not_initialised:
  "\<not> isOpenCVLoaded (CvDefined False eng) \<and>
   detectCardsOpenCV (CvDefined False eng) imageData = Inl TypeError \<and>
   warpCardToImageData (CvDefined False eng) imageData cornerPts outW outH = Inl TypeError \<and>
   \<not> isOpenCVLoaded CvUndefined \<and>
   detectCardsOpenCV CvUndefined imageData = Inr [] \<and>
   warpCardToImageData CvUndefined imageData cornerPts outW outH = Inr None"
  by (simp add: detectCardsOpenCV_def warpCardToImageData_def Let_def split: list.splits)

section \<open>The loop over the strategies\<close>












section \<open>Confidence of a detection\<close>




text \<open>
  The lower bound is attained: a contour that fills exactly 60% of its rectangle passes
  the filter \<^verbatim>\<open>fillRatio < 0.60\<close>, and its detection has confidence \<open>0.6\<close>.
\<close>

lemma processContour_borderline:
  "processContour 1000 600 1 600000 borderlineContour = Inr (Some borderlineDetection) \<and>
   confidence borderlineDetection = 0.60"
  by (simp add: evalCorners borderlineContour_def borderlineDetection_def)




section \<open>Deduplication of overlapping detections\<close>












text \<open>
  Two candidates that overlap by less than 40% are not always both kept, since a third
  one can stand between them: with \<open>crossEngine\<close> the candidate of the third strategy
  does not touch the candidate of the first, and it is discarded all the same.
\<close>

lemma cross_third_discarded:
  "detectionB \<in> set (strategyCandidates crossEngine exampleImage) \<and>
   detectionA2 \<in> set (strategyCandidates crossEngine exampleImage) \<and>
   overlapArea (bbox detectionB) (bbox detectionA2) = 0 \<and>
   detectCardsOpenCV (CvDefined True crossEngine) exampleImage = Inr [detectionA, detectionB] \<and>
   detectionA2 \<notin> set [detectionA, detectionB]"
  by (simp add: strategyCandidates_cross detectCardsOpenCV_cross)
     (simp add: detectionA_def detectionB_def detectionA2_def)


text \<open>
  The products \<^verbatim>\<open>minArea * threshold\<close> of these two examples are the same in double
  precision: the double nearest to \<open>0.4\<close> is a little more than \<open>0.4\<close>, and its products by
  15000 and by 100 round to 6000 and to 40.
\<close>

lemma ulp_values:
  "power_int (2::real) (- 2 - 52) = 1 / 2 ^ 54"
  "power_int (2::real) (12 - 52) = 1 / 2 ^ 40"
  "power_int (2::real) (5 - 52) = 1 / 2 ^ 47"
  by (simp_all add: power_int_def power_one_over)

lemma toDouble_at:
  assumes "r \<noteq> 0" and "binade r = e" and "power_int 2 (e - 52) = u"
    and "r / u = q" and "roundHalfEven q = n" and "\<bar>real_of_int n * u\<bar> < jsInfinity"
  shows "toDouble r = real_of_int n * u"
proof -
  from assms have "nearestDouble r = real_of_int n * u"
    by (simp add: nearestDouble_def Let_def)
  with toDouble_finite [of r] assms(6) show ?thesis by simp
qed

lemma binade_two_fifths: "binade (2 / 5) = - 2"
proof -
  have "\<lfloor>log 2 (2 / 5 :: real)\<rfloor> = - 2"
    by (simp add: floor_eq_iff le_log_iff log_less_iff powr_minus)
  then show ?thesis by (simp add: binade_def)
qed

lemma toDouble_two_fifths: "toDouble (2 / 5) = 7205759403792794 / 2 ^ 54"
proof -
  have f: "\<lfloor>(36028797018963968::real) / 5\<rfloor> = 7205759403792793"
    by (simp add: floor_eq_iff)
  have r: "roundHalfEven (36028797018963968 / 5) = 7205759403792794"
    unfolding roundHalfEven_def Let_def f by simp
  have q: "(2::real) / 5 / (1 / 2 ^ 54) = 36028797018963968 / 5" by simp
  have "toDouble (2 / 5) = real_of_int 7205759403792794 * (1 / 2 ^ 54)"
    by (rule toDouble_at [OF _ binade_two_fifths ulp_values(1) q r]) (simp_all add: jsInfinity_def)
  then show ?thesis by simp
qed

lemma threshold_15000: "toDouble (15000 * toDouble (2 / 5)) = 6000"
proof -
  have v: "15000 * toDouble (2 / 5) = (108086391056891910000::real) / 2 ^ 54"
    by (simp add: toDouble_two_fifths)
  have "\<lfloor>log 2 ((108086391056891910000::real) / 2 ^ 54)\<rfloor> = 12"
    by (simp add: floor_eq_iff le_log_iff log_less_iff)
  then have b: "binade ((108086391056891910000::real) / 2 ^ 54) = 12"
    by (simp add: binade_def)
  have f: "\<lfloor>(108086391056891910000::real) / 16384\<rfloor> = 6597069766656000"
    by (simp add: floor_eq_iff)
  have r: "roundHalfEven (108086391056891910000 / 16384) = 6597069766656000"
    unfolding roundHalfEven_def Let_def f by simp
  have q: "(108086391056891910000::real) / 2 ^ 54 / (1 / 2 ^ 40) = 108086391056891910000 / 16384"
    by simp
  have "toDouble ((108086391056891910000::real) / 2 ^ 54) = real_of_int 6597069766656000 * (1 / 2 ^ 40)"
    by (rule toDouble_at [OF _ b ulp_values(2) q r]) (simp_all add: jsInfinity_def)
  then show ?thesis unfolding v by simp
qed

lemma threshold_100: "toDouble (100 * toDouble (2 / 5)) = 40"
proof -
  have v: "100 * toDouble (2 / 5) = (720575940379279400::real) / 2 ^ 54"
    by (simp add: toDouble_two_fifths)
  have "\<lfloor>log 2 ((720575940379279400::real) / 2 ^ 54)\<rfloor> = 5"
    by (simp add: floor_eq_iff le_log_iff log_less_iff)
  then have b: "binade ((720575940379279400::real) / 2 ^ 54) = 5"
    by (simp add: binade_def)
  have f: "\<lfloor>(720575940379279400::real) / 128\<rfloor> = 5629499534213120"
    by (simp add: floor_eq_iff)
  have r: "roundHalfEven (720575940379279400 / 128) = 5629499534213120"
    unfolding roundHalfEven_def Let_def f by simp
  have q: "(720575940379279400::real) / 2 ^ 54 / (1 / 2 ^ 47) = 720575940379279400 / 128"
    by simp
  have "toDouble ((720575940379279400::real) / 2 ^ 54) = real_of_int 5629499534213120 * (1 / 2 ^ 47)"
    by (rule toDouble_at [OF _ b ulp_values(3) q r]) (simp_all add: jsInfinity_def)
  then show ?thesis unfolding v by simp
qed

section \<open>Card ids in a frame\<close>

lemma warp_null:
  "warpCardToImageData g img cs w h = Inr None \<Longrightarrow> g = CvUndefined"
  by (cases g) (auto simp: warpCardToImageData_def Let_def split: list.splits sum.splits if_splits)

lemma classifyLoop_ids:
  assumes "classifyLoop env img dets idx k acc = Inr out"
    and "\<forall>p < length acc. id (acc ! p) = p"
    and "length acc = idx \<or> cvGlobal env k = CvUndefined"
  shows "\<forall>p < length out. id (out ! p) = p"
  using assms
proof (induction dets arbitrary: idx k acc)
  case Nil
  then show ?case by simp
next
  case (Cons detection rest)
  show ?case
  proof (cases "warpCardToImageData (cvGlobal env k) img (CardDetection.corners detection) 200 300")
    case (Inl e)
    with Cons.prems(1) show ?thesis by simp
  next
    case (Inr warped)
    show ?thesis
    proof (cases warped)
      case None
      with Inr have undef: "cvGlobal env k = CvUndefined" by (simp add: warp_null)
      from Inr None Cons.prems(1) have "classifyLoop env img rest (idx + 1) k acc = Inr out"
        by simp
      from Cons.IH [OF this Cons.prems(2)] undef show ?thesis by simp
    next
      case (Some cardImageData)
      with Inr have "cvGlobal env k \<noteq> CvUndefined"
        by (auto simp: warpCardToImageData_def)
      with Cons.prems(3) have len: "length acc = idx" by simp
      from Inr Some Cons.prems(1) obtain card where
        rec: "classifyLoop env img rest (idx + 1) (k + 1) (acc @ [card]) = Inr out" and
        card: "id card = idx"
        by (auto split: sum.splits)
      show ?thesis
      proof (rule Cons.IH [OF rec])
        show "\<forall>p < length (acc @ [card]). id ((acc @ [card]) ! p) = p"
          using Cons.prems(2) len card by (auto simp: nth_append less_Suc_eq)
      next
        show "length (acc @ [card]) = idx + 1 \<or> cvGlobal env (k + 1) = CvUndefined"
          using len by simp
      qed
    qed
  qed
qed

lemma generateMockCards_ids:
  "\<forall>p < length (generateMockCards rnd). id (generateMockCards rnd ! p) = p"
  by (simp add: generateMockCards_def mockCard_def Let_def)

lemma frameCards_ids:
  assumes "frameCards st env img = Inr cs"
  shows "\<forall>p < length cs. id (cs ! p) = p"
proof (cases "MOCK_MODE env \<or> \<not> classifierRef st \<or> \<not> isOpenCVLoaded (cvGlobal env 0)")
  case True
  with assms have "cs = generateMockCards (randomValues env)"
    by (auto simp: frameCards_def split: if_splits)
  then show ?thesis using generateMockCards_ids by simp
next
  case False
  with assms obtain detections where
    "cs = [] \<or> classifyLoop env img detections 0 0 [] = Inr cs"
    by (auto simp: frameCards_def split: sum.splits if_splits)
  then show ?thesis
  proof
    assume "cs = []"
    then show ?thesis by simp
  next
    assume "classifyLoop env img detections 0 0 [] = Inr cs"
    from classifyLoop_ids [OF this] show ?thesis by simp
  qed
qed

text \<open>
  The \<^verbatim>\<open>id\<close> of a card that the loop pushes is the index of its detection in the list of
  detections, and the card has the bounding box of that detection.
\<close>

lemma nth_after_head:
  "Suc idx \<le> n \<Longrightarrow> (d # rest) ! (n - idx) = rest ! (n - Suc idx)"
proof -
  assume "Suc idx \<le> n"
  then have "n - idx = Suc (n - Suc idx)" by arith
  then show ?thesis by simp
qed

lemma classifyLoop_detection_index:
  assumes "classifyLoop env img dets idx k acc = Inr out" and "c \<in> set out"
  shows "c \<in> set acc \<or>
         (idx \<le> id c \<and> id c < idx + length dets \<and>
          Card.bbox c = CardDetection.bbox (dets ! (id c - idx)))"
  using assms
proof (induction dets arbitrary: idx k acc)
  case Nil
  then show ?case by simp
next
  case (Cons detection rest)
  show ?case
  proof (cases "warpCardToImageData (cvGlobal env k) img (CardDetection.corners detection) 200 300")
    case (Inl e)
    with Cons.prems(1) show ?thesis by simp
  next
    case (Inr warped)
    show ?thesis
    proof (cases warped)
      case None
      with Inr Cons.prems(1) have "classifyLoop env img rest (idx + 1) k acc = Inr out"
        by simp
      from Cons.IH [OF this Cons.prems(2)] show ?thesis
        by (auto simp: nth_after_head)
    next
      case (Some cardImageData)
      with Inr Cons.prems(1) obtain card where
        rec: "classifyLoop env img rest (idx + 1) (k + 1) (acc @ [card]) = Inr out" and
        card: "id card = idx" "Card.bbox card = CardDetection.bbox detection"
        by (auto split: sum.splits)
      from Cons.IH [OF rec Cons.prems(2)] card show ?thesis
        by (auto simp: nth_after_head)
    qed
  qed
qed

text \<open>
  Claim C4. In every result that \<^verbatim>\<open>processFrame\<close> returns, the card at position \<open>p\<close> of the
  card list has \<^verbatim>\<open>id\<close> \<open>p\<close>. The loop sets \<^verbatim>\<open>id\<close> to the index of the detection, and a
  detection is skipped only when \<^verbatim>\<open>warpCardToImageData\<close> returns \<^verbatim>\<open>null\<close>, that is when
  the global \<^verbatim>\<open>cv\<close> is undefined; the next iterations follow with no \<^verbatim>\<open>await\<close> in between,
  so they find \<^verbatim>\<open>cv\<close> undefined too, and the cards of the frame are the cards of a prefix
  of the detections. The mock cards are numbered by their position.
\<close>

theorem card_id_is_position:
  assumes "processFrame st env imageData = (st', Some result)"
    and "p < length (cards result)"
  shows "id (cards result ! p) = p"
proof -
  from assms(1) obtain st1 where
    "leaveFrame (frameBody st1 env imageData) st1 = (st', Some result)"
    by (auto simp: processFrame_def split: option.splits)
  then have "frameBody st1 env imageData = Inr result"
    by (auto simp: leaveFrame_def split: sum.splits)
  then obtain cs where "frameCards st1 env imageData = Inr cs" and "cards result = cs"
    by (auto simp: frameBody_def Let_def split: sum.splits)
  with frameCards_ids [of st1 env imageData cs] assms(2) show ?thesis by simp
qed

lemma skip_detect: "detectCardsOpenCV (cvGlobal skipEnv 0) exampleImage = Inr [detectionA, detectionB]"
  by (simp add: skipEnv_def detectCardsOpenCV_example)

lemma skip_warp:
  "warpCardToImageData (cvGlobal skipEnv 1) exampleImage (CardDetection.corners detectionB) 200 300 = Inr None"
  "warpCardToImageData (cvGlobal skipEnv (Suc 0)) exampleImage (CardDetection.corners detectionB) 200 300 = Inr None"
  by (simp_all add: skipEnv_def warpCardToImageData_def)

lemma skip_warpA:
  "warpCardToImageData (cvGlobal skipEnv 0) exampleImage (CardDetection.corners detectionA) 200 300 =
     Inr (Some \<lparr>width = 200, height = 300, data = []\<rparr>)"
  by (simp add: skipEnv_def warpCardToImageData_def detectionA_def exampleEngine_def hypot_def)

lemma skip_props:
  "indicesToCard (shape exampleClassification) (color exampleClassification)
     (number exampleClassification) (shading exampleClassification) =
   Inr \<lparr>shape = Some Diamond, color = Some Green, number = Some Num3, shading = Some Solid\<rparr>"
  by (simp add: indicesToCard_def exampleClassification_def arrayGet_def SHAPES_def COLORS_def
      NUMBERS_def SHADINGS_def)

lemma skip_loop:
  "classifyLoop skipEnv exampleImage [detectionA, detectionB] 0 0 [] = Inr [skipCard]"
proof -
  have c: "classifyCall skipEnv 0 \<lparr>width = 200, height = 300, data = []\<rparr> = Inr exampleClassification"
    by (simp add: skipEnv_def)
  show ?thesis
    by (simp add: skip_warpA skip_warp c skip_props) (simp add: skipCard_def detectionA_def)
qed

lemma skip_cards: "frameCards idleState skipEnv exampleImage = Inr [skipCard]"
proof -
  have "\<not> MOCK_MODE skipEnv" "classifierRef idleState" "isOpenCVLoaded (cvGlobal skipEnv 0)"
    by (simp_all add: skipEnv_def idleState_def)
  then show ?thesis
    by (simp add: frameCards_def skip_detect skip_loop del: classifyLoop.simps)
qed

lemma skip_frame:
  "processFrame idleState skipEnv exampleImage =
     (idleState\<lparr>results := Some skipResult\<rparr>, Some skipResult)"
proof -
  have e: "enterFrame idleState = Some (idleState\<lparr>isProcessingRef := True\<rparr>)"
    by (simp add: enterFrame_def idleState_def)
  have f: "frameCards (idleState\<lparr>isProcessingRef := True\<rparr>) skipEnv exampleImage = Inr [skipCard]"
    using skip_cards by (simp add: frameCards_def)
  have s: "findAllSets [skipCard] = []"
    by (simp add: findAllSets_def)
  have b: "frameBody (idleState\<lparr>isProcessingRef := True\<rparr>) skipEnv exampleImage = Inr skipResult"
    by (simp add: frameBody_def f s skipResult_def) (simp add: skipEnv_def)
  show ?thesis
    by (simp add: processFrame_def e b leaveFrame_def) (simp add: idleState_def)
qed

theorem card_id_is_position_witness:
  "detectCardsOpenCV (cvGlobal skipEnv 0) exampleImage = Inr [detectionA, detectionB] \<and>
   warpCardToImageData (cvGlobal skipEnv 1) exampleImage (CardDetection.corners detectionB) 200 300 = Inr None \<and>
   processFrame idleState skipEnv exampleImage = (idleState\<lparr>results := Some skipResult\<rparr>, Some skipResult) \<and>
   cards skipResult = [skipCard] \<and>
   (0::nat) < length (cards skipResult) \<and>
   id (cards skipResult ! 0) = 0"
proof -
  have l: "(0::nat) < length (cards skipResult)" by (simp add: skipResult_def)
  have c: "cards skipResult = [skipCard]" by (simp add: skipResult_def)
  from card_id_is_position [OF skip_frame l] skip_detect skip_warp(1) skip_frame l c
  show ?thesis by simp
qed

section \<open>One frame at a time\<close>

lemma leaveFrame_clears: "\<not> isProcessingRef (fst (leaveFrame outcome st))"
  by (cases outcome) (simp_all add: leaveFrame_def)

lemma processFrame_dropped: "isProcessingRef st \<Longrightarrow> processFrame st env img = (st, None)"
  by (simp add: processFrame_def enterFrame_def)

lemma processFrame_releases:
  "\<not> isProcessingRef st \<Longrightarrow> \<not> isProcessingRef (fst (processFrame st env img))"
  by (simp add: processFrame_def enterFrame_def leaveFrame_clears)

lemma step_consistent: "guard_consistent sys \<Longrightarrow> guard_consistent (step ev sys)"
proof (cases ev)
  case Request
  assume "guard_consistent sys"
  with Request show ?thesis
    by (auto simp: guard_consistent_def enterFrame_def)
next
  case (Settle outcome)
  assume "guard_consistent sys"
  with Settle show ?thesis
    by (auto simp: guard_consistent_def leaveFrame_clears)
qed

lemma runEvents_consistent:
  "guard_consistent sys \<Longrightarrow> guard_consistent (runEvents events sys)"
  unfolding runEvents_def
proof (induction events arbitrary: sys)
  case Nil
  then show ?case by simp
next
  case (Cons ev events)
  from Cons.IH [OF step_consistent [OF Cons.prems]] show ?case by simp
qed

text \<open>
  Claim C8. A call of \<^verbatim>\<open>processFrame\<close> made while the guard is set returns \<^verbatim>\<open>null\<close> and
  leaves the state as it is, whatever the frame and the environment; a call made while
  the guard is clear ends with the guard clear; the end of a \<^verbatim>\<open>try\<close> statement clears
  the guard whether the body returned a result or threw; and for every sequence of calls
  and ends of calls, starting with the guard clear, at most one call is in flight and the
  guard is set exactly when one is.
\<close>

theorem single_frame_in_flight:
  "(isProcessingRef st \<longrightarrow> processFrame st env imageData = (st, None)) \<and>
   (\<not> isProcessingRef st \<longrightarrow> \<not> isProcessingRef (fst (processFrame st env imageData))) \<and>
   \<not> isProcessingRef (fst (leaveFrame outcome st)) \<and>
   (\<not> isProcessingRef st \<longrightarrow>
      inFlight (runEvents events \<lparr>hook = st, inFlight = 0\<rparr>) \<le> 1 \<and>
      (isProcessingRef (hook (runEvents events \<lparr>hook = st, inFlight = 0\<rparr>)) \<longleftrightarrow>
         inFlight (runEvents events \<lparr>hook = st, inFlight = 0\<rparr>) = 1))"
proof (intro conjI impI)
  assume "isProcessingRef st"
  then show "processFrame st env imageData = (st, None)" by (rule processFrame_dropped)
next
  assume "\<not> isProcessingRef st"
  then show "\<not> isProcessingRef (fst (processFrame st env imageData))" by (rule processFrame_releases)
next
  show "\<not> isProcessingRef (fst (leaveFrame outcome st))" by (rule leaveFrame_clears)
next
  assume idle: "\<not> isProcessingRef st"
  then have "guard_consistent \<lparr>hook = st, inFlight = 0\<rparr>"
    by (simp add: guard_consistent_def)
  from runEvents_consistent [OF this, of events]
  show "inFlight (runEvents events \<lparr>hook = st, inFlight = 0\<rparr>) \<le> 1"
    and "isProcessingRef (hook (runEvents events \<lparr>hook = st, inFlight = 0\<rparr>)) \<longleftrightarrow>
         inFlight (runEvents events \<lparr>hook = st, inFlight = 0\<rparr>) = 1"
    by (simp_all add: guard_consistent_def)
qed

lemma failing_frame: "processFrame idleState failingEnv exampleImage = (idleState, None)"
proof -
  have w: "warpCardToImageData (cvGlobal failingEnv 0) exampleImage (CardDetection.corners detectionA) 200 300 =
     Inr (Some \<lparr>width = 200, height = 300, data = []\<rparr>)"
    by (simp add: failingEnv_def warpCardToImageData_def detectionA_def exampleEngine_def hypot_def)
  have c: "classifyCall failingEnv 0 \<lparr>width = 200, height = 300, data = []\<rparr> = Inl ClassifierError"
    by (simp add: failingEnv_def)
  have l: "classifyLoop failingEnv exampleImage [detectionA, detectionB] 0 0 [] = Inl ClassifierError"
    by (simp add: w c)
  have d: "detectCardsOpenCV (cvGlobal failingEnv 0) exampleImage = Inr [detectionA, detectionB]"
    by (simp add: failingEnv_def detectCardsOpenCV_example)
  have "\<not> MOCK_MODE failingEnv" "isOpenCVLoaded (cvGlobal failingEnv 0)"
    by (simp_all add: failingEnv_def)
  then have f: "frameCards (idleState\<lparr>isProcessingRef := True\<rparr>) failingEnv exampleImage = Inl ClassifierError"
    by (simp add: frameCards_def idleState_def d l del: classifyLoop.simps)
  have e: "enterFrame idleState = Some (idleState\<lparr>isProcessingRef := True\<rparr>)"
    by (simp add: enterFrame_def idleState_def)
  show ?thesis
    by (simp add: processFrame_def e frameBody_def f leaveFrame_def) (simp add: idleState_def)
qed

theorem single_frame_in_flight_witness:
  "isProcessingRef busyState \<and>
   processFrame busyState failingEnv exampleImage = (busyState, None) \<and>
   \<not> isProcessingRef idleState \<and>
   processFrame idleState failingEnv exampleImage = (idleState, None) \<and>
   \<not> isProcessingRef (fst (processFrame idleState failingEnv exampleImage)) \<and>
   runEvents [Request, Request, Settle (Inl ClassifierError), Request] \<lparr>hook = idleState, inFlight = 0\<rparr> =
     \<lparr>hook = busyState, inFlight = 1\<rparr> \<and>
   inFlight (runEvents [Request, Request, Settle (Inl ClassifierError), Request] \<lparr>hook = idleState, inFlight = 0\<rparr>) \<le> 1"
proof -
  have b: "isProcessingRef busyState" by (simp add: busyState_def)
  have i: "\<not> isProcessingRef idleState" by (simp add: idleState_def)
  have r: "runEvents [Request, Request, Settle (Inl ClassifierError), Request] \<lparr>hook = idleState, inFlight = 0\<rparr> =
     \<lparr>hook = busyState, inFlight = 1\<rparr>"
    by (simp add: runEvents_def enterFrame_def leaveFrame_def idleState_def busyState_def)
  from single_frame_in_flight [of busyState failingEnv exampleImage "Inl ClassifierError"
      "[Request, Request, Settle (Inl ClassifierError), Request]"]
    single_frame_in_flight [of idleState failingEnv exampleImage "Inl ClassifierError"
      "[Request, Request, Settle (Inl ClassifierError), Request]"]
    b i r failing_frame
  show ?thesis by simp
qed

section \<open>Brute-force and optimized search\<close>

text \<open>
  The results of the two searches, as sets: \<^verbatim>\<open>findAllSets\<close> returns the valid triples
  \<open>i < j < k\<close>; \<^verbatim>\<open>findAllSetsOptimized\<close> returns, for every pair \<open>i < j\<close>, the triple with the
  index \<open>k > j\<close> that the map holds for the signature of the required third card. The map
  holds one index for a signature, the position of the last card that has it.
\<close>

lemma findAllSets_iff:
  "t \<in> set (findAllSets cs) \<longleftrightarrow>
     (\<exists>i j k. i < j \<and> j < k \<and> k < length cs \<and> isValidSet (cs ! i) (cs ! j) (cs ! k) \<and>
        t = \<lparr>SetResult.cards = (cs ! i, cs ! j, cs ! k), indices = (i, j, k)\<rparr>)"
proof
  assume "t \<in> set (findAllSets cs)"
  then obtain i j k where "i < length cs - 2" "i + 1 \<le> j" "j < length cs - 1" "j + 1 \<le> k"
    "k < length cs" "isValidSet (cs ! i) (cs ! j) (cs ! k)"
    "t = \<lparr>SetResult.cards = (cs ! i, cs ! j, cs ! k), indices = (i, j, k)\<rparr>"
    by (auto simp: findAllSets_def Let_def split: if_splits)
  then show "\<exists>i j k. i < j \<and> j < k \<and> k < length cs \<and> isValidSet (cs ! i) (cs ! j) (cs ! k) \<and>
        t = \<lparr>SetResult.cards = (cs ! i, cs ! j, cs ! k), indices = (i, j, k)\<rparr>"
    by (intro exI [of _ i] exI [of _ j] exI [of _ k]) simp
next
  assume "\<exists>i j k. i < j \<and> j < k \<and> k < length cs \<and> isValidSet (cs ! i) (cs ! j) (cs ! k) \<and>
        t = \<lparr>SetResult.cards = (cs ! i, cs ! j, cs ! k), indices = (i, j, k)\<rparr>"
  then obtain i j k where h: "i < j" "j < k" "k < length cs" "isValidSet (cs ! i) (cs ! j) (cs ! k)"
    "t = \<lparr>SetResult.cards = (cs ! i, cs ! j, cs ! k), indices = (i, j, k)\<rparr>"
    by blast
  then have "i \<in> set [0 ..< length cs - 2]" "j \<in> set [i + 1 ..< length cs - 1]" "k \<in> set [j + 1 ..< length cs]"
    by auto
  with h(4,5) show "t \<in> set (findAllSets cs)"
    unfolding findAllSets_def Let_def set_concat set_map by (auto simp del: set_upt)
qed

lemma strShape_inj: "strShape a = strShape b \<longleftrightarrow> a = b"
  by (cases a; cases b) simp_all

lemma strColor_inj: "strColor a = strColor b \<longleftrightarrow> a = b"
  by (cases a; cases b) simp_all

lemma strNumber_inj: "strNumber a = strNumber b \<longleftrightarrow> a = b"
  by (cases a; cases b) simp_all

lemma strShading_inj: "strShading a = strShading b \<longleftrightarrow> a = b"
  by (cases a; cases b) simp_all

lemma third_shape:
  "\<exists>t. getThirdValue a b SHAPES = Some t \<and> (t = c \<longleftrightarrow> isIdenticalOrDistinct a b c)"
  unfolding isIdenticalOrDistinct_iff all_same_or_all_different_def getThirdValue_def SHAPES_def
  by (cases a; cases b; cases c) simp_all

lemma third_color:
  "\<exists>t. getThirdValue a b COLORS = Some t \<and> (t = c \<longleftrightarrow> isIdenticalOrDistinct a b c)"
  unfolding isIdenticalOrDistinct_iff all_same_or_all_different_def getThirdValue_def COLORS_def
  by (cases a; cases b; cases c) simp_all

lemma third_number:
  "\<exists>t. getThirdValue a b NUMBERS = Some t \<and> (t = c \<longleftrightarrow> isIdenticalOrDistinct a b c)"
  unfolding isIdenticalOrDistinct_iff all_same_or_all_different_def getThirdValue_def NUMBERS_def
  by (cases a; cases b; cases c) simp_all

lemma third_shading:
  "\<exists>t. getThirdValue a b SHADINGS = Some t \<and> (t = c \<longleftrightarrow> isIdenticalOrDistinct a b c)"
  unfolding isIdenticalOrDistinct_iff all_same_or_all_different_def getThirdValue_def SHADINGS_def
  by (cases a; cases b; cases c) simp_all

lemma no_dash_shape: "CHR ''-'' \<notin> set (strShape s)"
  by (cases s) simp_all

lemma no_dash_color: "CHR ''-'' \<notin> set (strColor c)"
  by (cases c) simp_all

lemma no_dash_number: "CHR ''-'' \<notin> set (strNumber n)"
  by (cases n) simp_all

lemma takeWhile_dash:
  "CHR ''-'' \<notin> set s \<Longrightarrow> takeWhile (\<lambda>ch. ch \<noteq> CHR ''-'') (s @ CHR ''-'' # r) = s"
  by (induction s) auto

lemma dash_split:
  assumes "CHR ''-'' \<notin> set s" and "CHR ''-'' \<notin> set s'"
    and "s @ CHR ''-'' # r = s' @ CHR ''-'' # r'"
  shows "s = s' \<and> r = r'"
proof -
  have "takeWhile (\<lambda>ch. ch \<noteq> CHR ''-'') (s @ CHR ''-'' # r) = s"
    using assms(1) by (rule takeWhile_dash)
  moreover have "takeWhile (\<lambda>ch. ch \<noteq> CHR ''-'') (s' @ CHR ''-'' # r') = s'"
    using assms(2) by (rule takeWhile_dash)
  ultimately have "s = s'" using assms(3) by simp
  with assms(3) show ?thesis by simp
qed

lemma signature_inj:
  assumes "CHR ''-'' \<notin> set s" "CHR ''-'' \<notin> set s'" "CHR ''-'' \<notin> set c" "CHR ''-'' \<notin> set c'"
    "CHR ''-'' \<notin> set n" "CHR ''-'' \<notin> set n'"
  shows "signature s c n d = signature s' c' n' d' \<longleftrightarrow> s = s' \<and> c = c' \<and> n = n' \<and> d = d'"
proof
  assume eq: "signature s c n d = signature s' c' n' d'"
  then have "s @ CHR ''-'' # (c @ CHR ''-'' # (n @ CHR ''-'' # d)) =
             s' @ CHR ''-'' # (c' @ CHR ''-'' # (n' @ CHR ''-'' # d'))"
    by (simp add: signature_def)
  from dash_split [OF assms(1,2) this] have 1: "s = s'" and
    r1: "c @ CHR ''-'' # (n @ CHR ''-'' # d) = c' @ CHR ''-'' # (n' @ CHR ''-'' # d')"
    by simp_all
  from dash_split [OF assms(3,4) r1] have 2: "c = c'" and
    r2: "n @ CHR ''-'' # d = n' @ CHR ''-'' # d'"
    by simp_all
  from dash_split [OF assms(5,6) r2] have "n = n'" "d = d'" by simp_all
  with 1 2 show "s = s' \<and> c = c' \<and> n = n' \<and> d = d'" by simp
next
  assume "s = s' \<and> c = c' \<and> n = n' \<and> d = d'"
  then show "signature s c n d = signature s' c' n' d'" by simp
qed

lemma requiredKey_iff:
  "requiredKey (computeRequiredThirdCard c1 c2) = cardKey c3 \<longleftrightarrow> isValidSet c1 c2 c3"
proof -
  from third_shape [of "shape c1" "shape c2" "shape c3"] obtain ts where
    ts: "getThirdValue (shape c1) (shape c2) SHAPES = Some ts"
        "ts = shape c3 \<longleftrightarrow> isIdenticalOrDistinct (shape c1) (shape c2) (shape c3)"
    by blast
  from third_color [of "color c1" "color c2" "color c3"] obtain tc where
    tc: "getThirdValue (color c1) (color c2) COLORS = Some tc"
        "tc = color c3 \<longleftrightarrow> isIdenticalOrDistinct (color c1) (color c2) (color c3)"
    by blast
  from third_number [of "number c1" "number c2" "number c3"] obtain tn where
    tn: "getThirdValue (number c1) (number c2) NUMBERS = Some tn"
        "tn = number c3 \<longleftrightarrow> isIdenticalOrDistinct (number c1) (number c2) (number c3)"
    by blast
  from third_shading [of "shading c1" "shading c2" "shading c3"] obtain td where
    td: "getThirdValue (shading c1) (shading c2) SHADINGS = Some td"
        "td = shading c3 \<longleftrightarrow> isIdenticalOrDistinct (shading c1) (shading c2) (shading c3)"
    by blast
  have "requiredKey (computeRequiredThirdCard c1 c2) =
          signature (strShape ts) (strColor tc) (strNumber tn) (strShading td)"
    by (simp add: requiredKey_def computeRequiredThirdCard_def ts(1) tc(1) tn(1) td(1))
  then have "requiredKey (computeRequiredThirdCard c1 c2) = cardKey c3 \<longleftrightarrow>
      ts = shape c3 \<and> tc = color c3 \<and> tn = number c3 \<and> td = shading c3"
    by (simp add: cardKey_def signature_inj [OF no_dash_shape no_dash_shape no_dash_color no_dash_color no_dash_number no_dash_number]
        strShape_inj strColor_inj strNumber_inj strShading_inj)
  then show ?thesis
    by (simp add: isValidSet_def ts(2) tc(2) tn(2) td(2))
qed

lemma buildCardMap_snoc:
  "buildCardMap (cs @ [c]) = (buildCardMap cs)(cardKey c \<mapsto> length cs)"
  by (simp add: buildCardMap_def enumerate_append_eq)

lemma buildCardMap_distinct:
  "distinct (map cardKey cs) \<Longrightarrow>
     buildCardMap cs key = Some k \<longleftrightarrow> (k < length cs \<and> cardKey (cs ! k) = key)"
proof (induction cs rule: rev_induct)
  case Nil
  show ?case by (simp add: buildCardMap_def)
next
  case (snoc c cs)
  from snoc.prems have d: "distinct (map cardKey cs)" and fresh: "cardKey c \<notin> cardKey ` set cs"
    by simp_all
  note IH = snoc.IH [OF d]
  show ?case
  proof (cases "cardKey c = key")
    case True
    have old: "cardKey (cs ! k) \<noteq> key" if "k < length cs"
      using fresh True that by (metis imageI nth_mem)
    have "buildCardMap (cs @ [c]) key = Some (length cs)"
      using True by (simp add: buildCardMap_snoc)
    moreover have "(k < length (cs @ [c]) \<and> cardKey ((cs @ [c]) ! k) = key) \<longleftrightarrow> k = length cs"
    proof (cases "k < length cs")
      case True
      with old show ?thesis by (simp add: nth_append)
    next
      case False
      with \<open>cardKey c = key\<close> show ?thesis by (auto simp: nth_append)
    qed
    ultimately show ?thesis by auto
  next
    case False
    have "buildCardMap (cs @ [c]) key = buildCardMap cs key"
      using False by (simp add: buildCardMap_snoc)
    moreover have "(k < length (cs @ [c]) \<and> cardKey ((cs @ [c]) ! k) = key) \<longleftrightarrow>
        (k < length cs \<and> cardKey (cs ! k) = key)"
    proof (cases "k < length cs")
      case True
      then show ?thesis by (simp add: nth_append)
    next
      case False
      with \<open>cardKey c \<noteq> key\<close> show ?thesis by (auto simp: nth_append)
    qed
    ultimately show ?thesis using IH by simp
  qed
qed

lemma findAllSetsOptimized_iff:
  "t \<in> set (findAllSetsOptimized cs) \<longleftrightarrow>
     (\<exists>i j k. i < j \<and> j < length cs \<and> j < k \<and>
        buildCardMap cs (requiredKey (computeRequiredThirdCard (cs ! i) (cs ! j))) = Some k \<and>
        t = \<lparr>SetResult.cards = (cs ! i, cs ! j, cs ! k), indices = (i, j, k)\<rparr>)"
proof
  assume "t \<in> set (findAllSetsOptimized cs)"
  then obtain i j k where "i < length cs - 1" "i + 1 \<le> j" "j < length cs" "j < k"
    "buildCardMap cs (requiredKey (computeRequiredThirdCard (cs ! i) (cs ! j))) = Some k"
    "t = \<lparr>SetResult.cards = (cs ! i, cs ! j, cs ! k), indices = (i, j, k)\<rparr>"
    by (auto simp: findAllSetsOptimized_def Let_def split: if_splits option.splits)
  then show "\<exists>i j k. i < j \<and> j < length cs \<and> j < k \<and>
        buildCardMap cs (requiredKey (computeRequiredThirdCard (cs ! i) (cs ! j))) = Some k \<and>
        t = \<lparr>SetResult.cards = (cs ! i, cs ! j, cs ! k), indices = (i, j, k)\<rparr>"
    by (intro exI [of _ i] exI [of _ j] exI [of _ k]) simp
next
  assume "\<exists>i j k. i < j \<and> j < length cs \<and> j < k \<and>
        buildCardMap cs (requiredKey (computeRequiredThirdCard (cs ! i) (cs ! j))) = Some k \<and>
        t = \<lparr>SetResult.cards = (cs ! i, cs ! j, cs ! k), indices = (i, j, k)\<rparr>"
  then obtain i j k where h: "i < j" "j < length cs" "j < k"
    "buildCardMap cs (requiredKey (computeRequiredThirdCard (cs ! i) (cs ! j))) = Some k"
    "t = \<lparr>SetResult.cards = (cs ! i, cs ! j, cs ! k), indices = (i, j, k)\<rparr>"
    by blast
  then have "i \<in> set [0 ..< length cs - 1]" "j \<in> set [i + 1 ..< length cs]"
    by auto
  with h(3,4,5) show "t \<in> set (findAllSetsOptimized cs)"
    unfolding findAllSetsOptimized_def Let_def set_concat set_map
    by (auto simp del: set_upt)
qed

text \<open>
  When no two cards of the list have the same four properties, the two searches return
  the same results.
\<close>

lemma findAllSetsOptimized_distinct:
  assumes "distinct (map cardKey cs)"
  shows "set (findAllSetsOptimized cs) = set (findAllSets cs)"
proof -
  have key: "buildCardMap cs (requiredKey (computeRequiredThirdCard (cs ! i) (cs ! j))) = Some k \<longleftrightarrow>
      (k < length cs \<and> isValidSet (cs ! i) (cs ! j) (cs ! k))" for i j k
    using requiredKey_iff [of "cs ! i" "cs ! j" "cs ! k"]
    by (auto simp: buildCardMap_distinct [OF assms])
  have "t \<in> set (findAllSetsOptimized cs) \<longleftrightarrow> t \<in> set (findAllSets cs)" for t
  proof
    assume "t \<in> set (findAllSetsOptimized cs)"
    then obtain i j k where "i < j" "j < length cs" "j < k" "k < length cs"
      "isValidSet (cs ! i) (cs ! j) (cs ! k)"
      "t = \<lparr>SetResult.cards = (cs ! i, cs ! j, cs ! k), indices = (i, j, k)\<rparr>"
      unfolding findAllSetsOptimized_iff key by blast
    then show "t \<in> set (findAllSets cs)"
      unfolding findAllSets_iff by blast
  next
    assume "t \<in> set (findAllSets cs)"
    then obtain i j k where h: "i < j" "j < k" "k < length cs"
      "isValidSet (cs ! i) (cs ! j) (cs ! k)"
      "t = \<lparr>SetResult.cards = (cs ! i, cs ! j, cs ! k), indices = (i, j, k)\<rparr>"
      unfolding findAllSets_iff by blast
    from h(2,3) have "j < length cs" by simp
    with h show "t \<in> set (findAllSetsOptimized cs)"
      unfolding findAllSetsOptimized_iff key by blast
  qed
  then show ?thesis by blast
qed

lemma duplicate_brute: "map indices (findAllSets duplicateCards) = [(0, 1, 2), (0, 1, 3)]"
  by code_simp

lemma duplicate_optimized: "map indices (findAllSetsOptimized duplicateCards) = [(0, 1, 3)]"
  by code_simp

text \<open>
  Claim C2 fails on the code for a list in which two cards have the same properties. Of
  the four cards of \<open>duplicateCards\<close> the cards 0, 1 and 2 form a Set and so do the cards
  0, 1 and 3; \<^verbatim>\<open>findAllSets\<close> returns both triples, \<^verbatim>\<open>findAllSetsOptimized\<close> returns only
  \<open>(0, 1, 3)\<close>, because the map keeps the index 3 alone for the signature of the two equal
  cards.
\<close>

theorem findAllSetsOptimized_misses_duplicates:
  "length duplicateCards = 4 \<and>
   map indices (findAllSets duplicateCards) = [(0, 1, 2), (0, 1, 3)] \<and>
   map indices (findAllSetsOptimized duplicateCards) = [(0, 1, 3)] \<and>
   set (map indices (findAllSetsOptimized duplicateCards)) \<noteq> set (map indices (findAllSets duplicateCards))"
  by (simp add: duplicate_brute duplicate_optimized) (simp add: duplicateCards_def)

end
